theory Spec2Isabelle
  imports Main "HOL-Library.Sublist" "HOL-Library.AList"
begin

section \<open>Python values, strings and errors\<close>

text \<open>
  The text of a document is a \<open>string\<close>. The character classes below are Python's on the
  ASCII range (\<open>str.isspace\<close>, \<open>str.isdigit\<close>, the \<open>\w\<close> of \<open>re\<close>); a character
  above 127 belongs to none of them here, so the concrete results of this theory are
  results about ASCII text.

  A Python \<open>float\<close> is kept symbolic: \<open>FloatOf s\<close> is \<open>float(s)\<close> and \<open>FloatDiv x n\<close> is
  \<open>x / n\<close>. Floating-point rounding is not modelled.
\<close>

datatype pyfloat = FloatOf string | FloatDiv pyfloat nat

datatype pyval = VStr string | VFloat pyfloat

datatype py_error =
  ValueError string | TypeError string | KeyError string | OSError string
  | IllegalCharacterError string

definition is_digit :: "char \<Rightarrow> bool" where
  "is_digit c = (let n = (of_char c :: nat) in 48 \<le> n \<and> n \<le> 57)"

definition is_upper :: "char \<Rightarrow> bool" where
  "is_upper c = (let n = (of_char c :: nat) in 65 \<le> n \<and> n \<le> 90)"

definition is_lower :: "char \<Rightarrow> bool" where
  "is_lower c = (let n = (of_char c :: nat) in 97 \<le> n \<and> n \<le> 122)"

definition is_space :: "char \<Rightarrow> bool" where
  "is_space c = (let n = (of_char c :: nat) in (9 \<le> n \<and> n \<le> 13) \<or> (28 \<le> n \<and> n \<le> 32))"

definition is_word :: "char \<Rightarrow> bool" where
  "is_word c = (is_lower c \<or> is_upper c \<or> is_digit c \<or> c = CHR ''_'')"

definition to_upper :: "char \<Rightarrow> char" where
  "to_upper c = (if is_lower c then char_of ((of_char c :: nat) - 32) else c)"

definition to_lower :: "char \<Rightarrow> char" where
  "to_lower c = (if is_upper c then char_of ((of_char c :: nat) + 32) else c)"

text \<open>\<open>str(n)\<close> for a non-negative integer.\<close>

definition digit_char :: "nat \<Rightarrow> char" where
  "digit_char d = ''0123456789'' ! (d mod 10)"

function str_nat :: "nat \<Rightarrow> string" where
  "str_nat n = (if n < 10 then [digit_char n] else str_nat (n div 10) @ [digit_char (n mod 10)])"
  by pat_completeness auto
termination
  by (relation "measure id") auto

declare str_nat.simps [simp del]

text \<open>\<open>int(s)\<close> on a string of decimal digits.\<close>

definition digit_val :: "char \<Rightarrow> nat" where
  "digit_val c = (of_char c :: nat) - 48"

definition nat_of_digits :: "string \<Rightarrow> nat" where
  "nat_of_digits s = foldl (\<lambda>a c. 10 * a + digit_val c) 0 s"

text \<open>\<open>s.strip()\<close>, \<open>s.replace(old, new)\<close> for one-character \<open>old\<close> and \<open>new\<close>,
  \<open>s.replace(old, "")\<close>, \<open>s.zfill(w)\<close> and \<open>s.lower()\<close>.\<close>

definition strip :: "string \<Rightarrow> string" where
  "strip s = rev (dropWhile is_space (rev (dropWhile is_space s)))"

definition replace_chr :: "char \<Rightarrow> char \<Rightarrow> string \<Rightarrow> string" where
  "replace_chr old new s = map (\<lambda>c. if c = old then new else c) s"

definition remove_chr :: "char \<Rightarrow> string \<Rightarrow> string" where
  "remove_chr old s = filter (\<lambda>c. c \<noteq> old) s"

definition zfill :: "nat \<Rightarrow> string \<Rightarrow> string" where
  "zfill w s = replicate (w - length s) CHR ''0'' @ s"

definition lower :: "string \<Rightarrow> string" where
  "lower s = map to_lower s"

text \<open>
  \<open>s.title()\<close>: a left-to-right scan that remembers whether the previous character was
  cased. A cased character is upper-cased after an uncased one and lower-cased after a
  cased one; an uncased character is kept.
\<close>

fun title_from :: "bool \<Rightarrow> string \<Rightarrow> string" where
  "title_from previous_is_cased [] = []"
| "title_from previous_is_cased (c # cs) =
     (if is_lower c then (if previous_is_cased then c else to_upper c) # title_from True cs
      else if is_upper c then (if previous_is_cased then to_lower c else c) # title_from True cs
      else c # title_from False cs)"

definition title :: "string \<Rightarrow> string" where
  "title s = title_from False s"

section \<open>Regular expressions: the fragment of \<open>re\<close> the patterns use\<close>

text \<open>
  A pattern is a list of nodes matched left to right by backtracking, in the order the
  \<open>re\<close> module tries the alternatives: a greedy repetition takes the longest run first,
  a lazy one the shortest. \<open>GOpen n\<close> and \<open>GClose n\<close> are the parentheses of capture
  group \<open>n\<close>; \<open>Opt\<close> is a greedy optional non-capturing group \<open>(?:...)?\<close>; \<open>Bol\<close> is
  \<open>^\<close> without \<open>re.MULTILINE\<close>; \<open>Dot\<close> is \<open>.\<close> and \<open>DotAll\<close> is \<open>.\<close> under \<open>re.DOTALL\<close>.
\<close>

datatype cclass = Ch char | Word | Digit | Space | Dot | DotAll

fun cmatch :: "cclass \<Rightarrow> char \<Rightarrow> bool" where
  "cmatch (Ch a) c = (c = a)"
| "cmatch Word c = is_word c"
| "cmatch Digit c = is_digit c"
| "cmatch Space c = is_space c"
| "cmatch Dot c = (c \<noteq> CHR 0x0A)"
| "cmatch DotAll c = True"

datatype node = One cclass | Plus cclass | Star cclass | LazyStar cclass
  | Opt "node list" | GOpen nat | GClose nat | Bol

fun weight :: "node \<Rightarrow> nat" where
  "weight (Plus c) = 2"
| "weight (Opt b) = Suc (sum_list (map weight b))"
| "weight _ = 1"

type_synonym spans = "(nat \<times> nat \<times> nat) list"

type_synonym mstate = "(nat \<times> nat) list \<times> spans"

text \<open>
  \<open>rmatch r s i st\<close> matches the pattern \<open>r\<close> against the rest \<open>s\<close> of the text, which
  starts at position \<open>i\<close>; \<open>st\<close> holds the start positions of the groups opened so far
  and the spans of the groups closed so far. It returns the end position and the spans.
\<close>

function rmatch :: "node list \<Rightarrow> string \<Rightarrow> nat \<Rightarrow> mstate \<Rightarrow> (nat \<times> spans) option" where
  "rmatch [] s i st = Some (i, snd st)"
| "rmatch (One c # r) [] i st = None"
| "rmatch (One c # r) (x # xs) i st = (if cmatch c x then rmatch r xs (Suc i) st else None)"
| "rmatch (Plus c # r) [] i st = None"
| "rmatch (Plus c # r) (x # xs) i st =
     (if cmatch c x then rmatch (Star c # r) xs (Suc i) st else None)"
| "rmatch (Star c # r) [] i st = rmatch r [] i st"
| "rmatch (Star c # r) (x # xs) i st =
     (if cmatch c x
      then (case rmatch (Star c # r) xs (Suc i) st of
              Some m \<Rightarrow> Some m
            | None \<Rightarrow> rmatch r (x # xs) i st)
      else rmatch r (x # xs) i st)"
| "rmatch (LazyStar c # r) [] i st = rmatch r [] i st"
| "rmatch (LazyStar c # r) (x # xs) i st =
     (case rmatch r (x # xs) i st of
        Some m \<Rightarrow> Some m
      | None \<Rightarrow> if cmatch c x then rmatch (LazyStar c # r) xs (Suc i) st else None)"
| "rmatch (Opt b # r) s i st =
     (case rmatch (b @ r) s i st of Some m \<Rightarrow> Some m | None \<Rightarrow> rmatch r s i st)"
| "rmatch (GOpen n # r) s i st = rmatch r s i ((n, i) # fst st, snd st)"
| "rmatch (GClose n # r) s i st =
     (case map_of (fst st) n of
        None \<Rightarrow> None
      | Some b \<Rightarrow> rmatch r s i (fst st, (n, b, i) # snd st))"
| "rmatch (Bol # r) s i st = (if i = 0 then rmatch r s i st else None)"
  by pat_completeness auto
termination
  by (relation "measures [\<lambda>(r, s, i, st). sum_list (map weight r), \<lambda>(r, s, i, st). length s]") auto

text \<open>\<open>re.search\<close>: the first start position, from the left, at which the pattern matches.\<close>

fun search_from :: "node list \<Rightarrow> string \<Rightarrow> nat \<Rightarrow> (nat \<times> nat \<times> spans) option" where
  "search_from re [] i =
     (case rmatch re [] i ([], []) of None \<Rightarrow> None | Some (e, gs) \<Rightarrow> Some (i, e, gs))"
| "search_from re (x # xs) i =
     (case rmatch re (x # xs) i ([], []) of
        None \<Rightarrow> search_from re xs (Suc i)
      | Some (e, gs) \<Rightarrow> Some (i, e, gs))"

record py_match =
  m_string :: string
  m_start :: nat
  m_end :: nat
  m_spans :: spans

definition re_search :: "node list \<Rightarrow> string \<Rightarrow> py_match option" where
  "re_search re t =
     (case search_from re t 0 of
        None \<Rightarrow> None
      | Some (b, e, gs) \<Rightarrow> Some \<lparr>m_string = t, m_start = b, m_end = e, m_spans = gs\<rparr>)"

definition substring :: "string \<Rightarrow> nat \<Rightarrow> nat \<Rightarrow> string" where
  "substring t b e = take (e - b) (drop b t)"

text \<open>
  \<open>m.group(n)\<close>. Python gives \<open>None\<close> for a group that took no part in the match; no
  pattern below has a capture group inside an optional part, so every group of a match
  has a span, and the empty string stands for the case that does not arise.
\<close>

definition group :: "py_match \<Rightarrow> nat \<Rightarrow> string" where
  "group m n =
     (if n = 0 then substring (m_string m) (m_start m) (m_end m)
      else case map_of (m_spans m) n of
             None \<Rightarrow> []
           | Some (b, e) \<Rightarrow> substring (m_string m) b e)"

definition lit :: "string \<Rightarrow> node list" where
  "lit s = map (\<lambda>c. One (Ch c)) s"

definition ws :: "node list" where
  "ws = [Plus Space]"

definition grp :: "nat \<Rightarrow> node list \<Rightarrow> node list" where
  "grp n body = GOpen n # body @ [GClose n]"

section \<open>Dates: \<open>datetime.strptime(s, "%B %d, %Y")\<close> and \<open>strftime("%Y-%m-%d 00:00:00")\<close>\<close>

text \<open>
  \<open>strptime\<close> turns the format into the regular expression
  \<open>(january|...|december)\s+(3[0-1]|[1-2]\d|0[1-9]|[1-9]| [1-9]),\s+(\d\d\d\d)\<close>, matched
  ignoring case against the whole string (month names of the C locale), and then builds
  the date, which fails for the year 0 and for a day the month does not have. \<open>None\<close> is
  the \<open>ValueError\<close>.
\<close>

definition month_names :: "string list" where
  "month_names = [''january'', ''february'', ''march'', ''april'', ''may'', ''june'', ''july'',
     ''august'', ''september'', ''october'', ''november'', ''december'']"

fun index_of :: "'a \<Rightarrow> 'a list \<Rightarrow> nat option" where
  "index_of x [] = None"
| "index_of x (y # ys) = (if x = y then Some 0 else map_option Suc (index_of x ys))"

definition is_leap :: "nat \<Rightarrow> bool" where
  "is_leap y = (y mod 4 = 0 \<and> (y mod 100 \<noteq> 0 \<or> y mod 400 = 0))"

definition days_in_month :: "nat \<Rightarrow> nat \<Rightarrow> nat" where
  "days_in_month y m =
     (if m = 2 then (if is_leap y then 29 else 28)
      else if m = 4 \<or> m = 6 \<or> m = 9 \<or> m = 11 then 30 else 31)"

definition strptime_B_d_Y :: "string \<Rightarrow> (nat \<times> nat \<times> nat) option" where
  "strptime_B_d_Y s =
     (let mon = takeWhile (\<lambda>c. \<not> is_space c) s;
          r1 = dropWhile (\<lambda>c. \<not> is_space c) s;
          r2 = dropWhile is_space r1;
          dd = takeWhile is_digit r2;
          r3 = dropWhile is_digit r2;
          r4 = dropWhile is_space (tl r3);
          d = nat_of_digits dd;
          y = nat_of_digits r4
      in case index_of (lower mon) month_names of
           None \<Rightarrow> None
         | Some k \<Rightarrow>
             if r1 \<noteq> [] \<and> (length dd = 1 \<or> length dd = 2) \<and> 1 \<le> d \<and> d \<le> 31
                \<and> r3 \<noteq> [] \<and> hd r3 = CHR '','' \<and> tl r3 \<noteq> [] \<and> is_space (hd (tl r3))
                \<and> length r4 = 4 \<and> list_all is_digit r4
                \<and> 1 \<le> y \<and> d \<le> days_in_month y (Suc k)
             then Some (y, Suc k, d)
             else None)"

definition strftime_iso :: "nat \<times> nat \<times> nat \<Rightarrow> string" where
  "strftime_iso ymd =
     (case ymd of (y, m, d) \<Rightarrow>
        zfill 4 (str_nat y) @ ''-'' @ zfill 2 (str_nat m) @ ''-'' @ zfill 2 (str_nat d)
          @ '' 00:00:00'')"

text \<open>The \<open>try\<close>/bare \<open>except\<close> around the two calls: a date that fails to parse gives the
  constant written in the \<open>except\<close> branch.\<close>

definition iso_date_or :: "string \<Rightarrow> string \<Rightarrow> string" where
  "iso_date_or fallback s =
     (case strptime_B_d_Y s of None \<Rightarrow> fallback | Some ymd \<Rightarrow> strftime_iso ymd)"

section \<open>Rows, the processing log and the output files\<close>

text \<open>
  A row is one dictionary \<open>{"#": ..., "Key": ..., "Value": ..., "Comments": ...}\<close>. A log
  entry is a message behind one of three marks: the rocket of the start banner, the check
  mark of a success and the cross of an error.
\<close>

record row =
  num :: nat
  key :: string
  val :: pyval
  comments :: string

datatype mark = Rocket | Check | Cross

type_synonym log_entry = "mark \<times> string"

text \<open>
  A JSON file is a sequence of characters in which a float is one token: \<open>FloatTok x\<close>
  stands for the digits \<open>repr(x)\<close> writes, which are not modelled. A workbook is the header
  and the rows of its sheet; \<open>PartialXlsx\<close> is the workbook left behind by a write that
  stopped at a cell the sheet cannot hold, whose cells are not modelled. \<open>Unwritable\<close> marks
  a path that cannot be opened for writing.
\<close>

datatype jchar = JC char | FloatTok pyfloat

datatype file_content =
  Xlsx "string list" "row list" | PartialXlsx | JsonFile "jchar list" | Unwritable

type_synonym filesystem = "string \<rightharpoonup> file_content"

section \<open>The pattern-matching processor (\<open>document_processor.py\<close>)\<close>

record processor =
  text_content :: "string option"
  extracted_data :: "row list"
  processing_log :: "log_entry list"

definition DocumentProcessor :: "string option \<Rightarrow> processor" where
  "DocumentProcessor text = \<lparr>text_content = text, extracted_data = [], processing_log = []\<rparr>"

definition log_append :: "log_entry \<Rightarrow> processor \<Rightarrow> processor" where
  "log_append e p = p\<lparr>processing_log := processing_log p @ [e]\<rparr>"

text \<open>With \<open>text_content = None\<close> the first \<open>re.search\<close> of a section raises this error,
  which the section's \<open>except\<close> logs.\<close>

definition none_text_error :: string where
  "none_text_error = ''expected string or bytes-like object, got '' @ [CHR 0x27] @ ''NoneType''
     @ [CHR 0x27]"

subsection \<open>Personal information\<close>

definition name_re :: "node list" where
  "name_re = Bol # grp 1 [Plus Word] @ ws @ grp 2 [Plus Word] @ ws @ lit ''was'' @ ws @ lit ''born''"

definition date_re :: "node list" where
  "date_re = [Plus Word] @ ws @ [Plus Digit] @ lit '','' @ ws @ [Plus Digit]"

definition dob_re :: "node list" where
  "dob_re = lit ''born'' @ ws @ lit ''on'' @ ws @ grp 1 date_re"

definition birth_re :: "node list" where
  "birth_re = lit ''born'' @ ws @ lit ''on'' @ ws @ [LazyStar Dot] @ lit '','' @ ws
     @ grp 1 [Plus Digit] @ lit '','' @ ws @ lit ''in'' @ ws @ grp 2 [Plus Word] @ lit '','' @ ws
     @ grp 3 [Plus Word]"

definition age_re :: "node list" where
  "age_re = lit ''making'' @ ws @ lit ''him'' @ ws @ grp 1 [Plus Digit] @ ws @ lit ''years'' @ ws
     @ lit ''old''"

definition blood_re :: "node list" where
  "blood_re = lit ''O+'' @ ws @ lit ''blood'' @ ws @ lit ''group''"

definition nationality_re :: "node list" where
  "nationality_re = lit ''As'' @ ws @ lit ''an'' @ ws @ grp 1 [Plus Word] @ ws @ lit ''national''"

definition pink_city_comment :: string where
  "pink_city_comment = ''Born and raised in the Pink City of India, his birthplace provides valuable regional profiling context''"

definition age_comment :: string where
  "age_comment = ''As on year 2024. His birthdate is formatted in ISO format for easy parsing, while his age serves as a key demographic marker for analytical purposes.''"

definition nationality_comment :: string where
  "nationality_comment = ''Citizenship status is important for understanding his work authorization and visa requirements across different employment opportunities.''"

definition name_rows :: "string \<Rightarrow> row list" where
  "name_rows t =
     (case re_search name_re t of
        None \<Rightarrow> []
      | Some name_match \<Rightarrow>
          [\<lparr>num = 1, key = ''First Name'', val = VStr (group name_match 1), comments = []\<rparr>,
           \<lparr>num = 2, key = ''Last Name'', val = VStr (group name_match 2), comments = []\<rparr>])"

definition dob_rows :: "string \<Rightarrow> row list" where
  "dob_rows t =
     (case re_search dob_re t of
        None \<Rightarrow> []
      | Some dob_match \<Rightarrow>
          [\<lparr>num = 3, key = ''Date of Birth'',
            val = VStr (iso_date_or ''1989-03-15 00:00:00'' (group dob_match 1)),
            comments = []\<rparr>])"

definition birth_rows :: "string \<Rightarrow> row list" where
  "birth_rows t =
     (case re_search birth_re t of
        None \<Rightarrow> []
      | Some birth_match \<Rightarrow>
          [\<lparr>num = 4, key = ''Birth City'', val = VStr (group birth_match 2),
            comments = pink_city_comment\<rparr>,
           \<lparr>num = 5, key = ''Birth State'', val = VStr (group birth_match 3),
            comments = pink_city_comment\<rparr>])"

definition age_rows :: "string \<Rightarrow> row list" where
  "age_rows t =
     (case re_search age_re t of
        None \<Rightarrow> []
      | Some age_match \<Rightarrow>
          [\<lparr>num = 6, key = ''Age'', val = VStr (group age_match 1 @ '' years''),
            comments = age_comment\<rparr>])"

definition blood_rows :: "string \<Rightarrow> row list" where
  "blood_rows t =
     (case re_search blood_re t of
        None \<Rightarrow> []
      | Some blood_match \<Rightarrow>
          [\<lparr>num = 7, key = ''Blood Group'', val = VStr ''O+'',
            comments = ''Emergency contact purposes.''\<rparr>])"

definition nationality_rows :: "string \<Rightarrow> row list" where
  "nationality_rows t =
     (case re_search nationality_re t of
        None \<Rightarrow> []
      | Some nationality_match \<Rightarrow>
          [\<lparr>num = 8, key = ''Nationality'', val = VStr (group nationality_match 1),
            comments = nationality_comment\<rparr>])"

text \<open>
  Each \<open>if match:\<close> block of a section appends its rows to \<open>extracted_data\<close>, in the
  order of the source; the section then logs its success. Nothing in a section can raise
  on a string, so its \<open>except\<close> is reached only when there is no text.
\<close>

definition extract_personal_info :: "processor \<Rightarrow> processor" where
  "extract_personal_info p =
     (case text_content p of
        None \<Rightarrow> log_append (Cross, ''Error extracting personal info: '' @ none_text_error) p
      | Some t \<Rightarrow>
          log_append (Check, ''Personal information extracted successfully'')
            (p\<lparr>extracted_data := extracted_data p @ name_rows t @ dob_rows t @ birth_rows t
                 @ age_rows t @ blood_rows t @ nationality_rows t\<rparr>))"

subsection \<open>Professional information\<close>

definition amount_re :: "node list" where
  "amount_re = [Plus Digit, Opt (lit '','' @ [Plus Digit])]"

definition first_job_re :: "node list" where
  "first_job_re = lit ''professional'' @ ws @ lit ''journey'' @ ws @ lit ''began'' @ ws @ lit ''on''
     @ ws @ grp 1 date_re @ [LazyStar Dot] @ lit ''as'' @ ws @ lit ''a'' @ ws @ grp 2 [LazyStar Dot]
     @ ws @ lit ''with'' @ ws @ lit ''an'' @ ws @ lit ''annual'' @ ws @ lit ''salary'' @ ws
     @ lit ''of'' @ ws @ grp 3 amount_re @ ws @ grp 4 [Plus Word]"

definition current_job_re :: "node list" where
  "current_job_re = lit ''current'' @ ws @ lit ''role'' @ ws @ lit ''at'' @ ws
     @ grp 1 [LazyStar Dot] @ ws @ lit ''beginning'' @ ws @ lit ''on'' @ ws @ grp 2 date_re
     @ [LazyStar Dot] @ lit ''as'' @ ws @ lit ''a'' @ ws @ grp 3 [LazyStar Dot] @ ws
     @ lit ''earning'' @ ws @ grp 4 amount_re @ ws @ grp 5 [Plus Word]"

definition prev_job_re :: "node list" where
  "prev_job_re = lit ''worked'' @ ws @ lit ''at'' @ ws @ grp 1 [LazyStar Dot] @ ws @ lit ''from''
     @ ws @ grp 2 date_re @ [LazyStar Dot] @ grp 3 [One Digit, One Digit, One Digit, One Digit]"

definition prev_designation_re :: "node list" where
  "prev_designation_re = lit ''at'' @ ws @ lit ''LakeCorp'' @ ws @ lit ''Solutions'' @ [Star Dot]
     @ lit ''starting'' @ ws @ lit ''as'' @ ws @ lit ''a'' @ ws @ grp 1 [LazyStar Dot] @ ws
     @ lit ''and''"

definition current_salary_comment :: string where
  "current_salary_comment = ''This salary progression from his starting compensation to his current peak salary of 2,800,000 INR represents a substantial eight-fold increase over his twelve-year career span.''"

definition first_job_rows :: "string \<Rightarrow> row list" where
  "first_job_rows t =
     (case re_search first_job_re t of
        None \<Rightarrow> []
      | Some first_job_match \<Rightarrow>
          [\<lparr>num = 9, key = ''Joining Date of first professional role'',
            val = VStr (iso_date_or ''2012-07-01 00:00:00'' (group first_job_match 1)),
            comments = []\<rparr>,
           \<lparr>num = 10, key = ''Designation of first professional role'',
            val = VStr (group first_job_match 2), comments = []\<rparr>,
           \<lparr>num = 11, key = ''Salary of first professional role'',
            val = VStr (remove_chr CHR '','' (group first_job_match 3)), comments = []\<rparr>,
           \<lparr>num = 12, key = ''Salary currency of first professional role'',
            val = VStr (group first_job_match 4), comments = []\<rparr>])"

definition current_job_rows :: "string \<Rightarrow> row list" where
  "current_job_rows t =
     (case re_search current_job_re t of
        None \<Rightarrow> []
      | Some current_job_match \<Rightarrow>
          [\<lparr>num = 13, key = ''Current Organization'', val = VStr (group current_job_match 1),
            comments = []\<rparr>,
           \<lparr>num = 14, key = ''Current Joining Date'',
            val = VStr (iso_date_or ''2021-06-15 00:00:00'' (group current_job_match 2)),
            comments = []\<rparr>,
           \<lparr>num = 15, key = ''Current Designation'', val = VStr (group current_job_match 3),
            comments = []\<rparr>,
           \<lparr>num = 16, key = ''Current Salary'',
            val = VStr (remove_chr CHR '','' (group current_job_match 4)),
            comments = current_salary_comment\<rparr>,
           \<lparr>num = 17, key = ''Current Salary Currency'', val = VStr (group current_job_match 5),
            comments = []\<rparr>])"

definition prev_designation_rows :: "string \<Rightarrow> row list" where
  "prev_designation_rows t =
     (case re_search prev_designation_re t of
        None \<Rightarrow> []
      | Some prev_designation_match \<Rightarrow>
          [\<lparr>num = 21, key = ''Previous Starting Designation'',
            val = VStr (group prev_designation_match 1), comments = ''Promoted in 2019''\<rparr>])"

definition prev_job_rows :: "string \<Rightarrow> row list" where
  "prev_job_rows t =
     (case re_search prev_job_re t of
        None \<Rightarrow> []
      | Some prev_job_match \<Rightarrow>
          [\<lparr>num = 18, key = ''Previous Organization'', val = VStr (group prev_job_match 1),
            comments = []\<rparr>,
           \<lparr>num = 19, key = ''Previous Joining Date'',
            val = VStr (iso_date_or ''2018-02-01 00:00:00'' (group prev_job_match 2)),
            comments = []\<rparr>,
           \<lparr>num = 20, key = ''Previous end year'', val = VStr (group prev_job_match 3),
            comments = []\<rparr>]
          @ prev_designation_rows t)"

definition extract_professional_info :: "processor \<Rightarrow> processor" where
  "extract_professional_info p =
     (case text_content p of
        None \<Rightarrow> log_append (Cross, ''Error extracting professional info: '' @ none_text_error) p
      | Some t \<Rightarrow>
          log_append (Check, ''Professional information extracted successfully'')
            (p\<lparr>extracted_data := extracted_data p @ first_job_rows t @ current_job_rows t
                 @ prev_job_rows t\<rparr>))"

subsection \<open>Education\<close>

definition decimal_re :: "node list" where
  "decimal_re = [Plus Digit] @ lit ''.'' @ [Plus Digit]"

definition two_words_re :: "node list" where
  "two_words_re = [Plus Word] @ ws @ [Plus Word]"

definition hs_re :: "node list" where
  "hs_re = lit ''high'' @ ws @ lit ''school'' @ ws @ lit ''education'' @ ws @ lit ''at'' @ ws
     @ grp 1 [LazyStar Dot] @ lit '','' @ ws @ lit ''where'' @ ws @ lit ''he'' @ ws
     @ lit ''completed''"

definition year12_re :: "node list" where
  "year12_re = lit ''12th'' @ ws @ lit ''standard'' @ ws @ lit ''in'' @ ws @ grp 1 [Plus Digit]"

definition score12_re :: "node list" where
  "score12_re = lit ''outstanding'' @ ws @ grp 1 decimal_re @ lit ''%'' @ ws @ lit ''overall'' @ ws
     @ lit ''score''"

definition ug_re :: "node list" where
  "ug_re = lit ''B.Tech'' @ ws @ lit ''in'' @ ws @ grp 1 two_words_re"

definition ug_college_re :: "node list" where
  "ug_college_re = lit ''prestigious'' @ ws @ grp 1 two_words_re @ lit '','' @ ws
     @ lit ''graduating''"

definition ug_year_re :: "node list" where
  "ug_year_re = lit ''graduating'' @ ws @ lit ''with'' @ ws @ lit ''honors'' @ ws @ lit ''in'' @ ws
     @ grp 1 [Plus Digit]"

definition ug_cgpa_re :: "node list" where
  "ug_cgpa_re = lit ''CGPA'' @ ws @ lit ''of'' @ ws @ grp 1 decimal_re @ ws @ lit ''on'' @ ws
     @ lit ''a'' @ ws @ lit ''10-point'' @ ws @ lit ''scale''"

definition grad_re :: "node list" where
  "grad_re = lit ''M.Tech'' @ ws @ lit ''in'' @ ws @ grp 1 two_words_re"

definition grad_college_re :: "node list" where
  "grad_college_re = lit ''IIT'' @ ws @ lit ''Bombay,'' @ ws @ lit ''where'' @ ws @ lit ''he'' @ ws
     @ lit ''earned''"

definition grad_cgpa_re :: "node list" where
  "grad_cgpa_re = lit ''achieving'' @ ws @ lit ''an'' @ ws @ lit ''exceptional'' @ ws @ lit ''CGPA''
     @ ws @ lit ''of'' @ ws @ grp 1 decimal_re"

definition year12_comment :: string where
  "year12_comment = ''His core subjects included Mathematics, Physics, Chemistry, and Computer Science, demonstrating his early aptitude for technical disciplines.''"

definition ug_year_comment :: string where
  "ug_year_comment = ''Graduating with honors and ranking 15th among 120 students in his class.''"

definition grad_cgpa_comment :: string where
  "grad_cgpa_comment = ''Considered exceptional and scoring 95 out of 100 for his final year thesis project.''"

definition hs_rows :: "string \<Rightarrow> row list" where
  "hs_rows t =
     (case re_search hs_re t of
        None \<Rightarrow> []
      | Some hs_match \<Rightarrow>
          [\<lparr>num = 22, key = ''High School'', val = VStr (group hs_match 1), comments = []\<rparr>])"

definition year12_rows :: "string \<Rightarrow> row list" where
  "year12_rows t =
     (case re_search year12_re t of
        None \<Rightarrow> []
      | Some year12_match \<Rightarrow>
          [\<lparr>num = 23, key = ''12th standard pass out year'', val = VStr (group year12_match 1),
            comments = year12_comment\<rparr>])"

definition score12_rows :: "string \<Rightarrow> row list" where
  "score12_rows t =
     (case re_search score12_re t of
        None \<Rightarrow> []
      | Some score12_match \<Rightarrow>
          [\<lparr>num = 24, key = ''12th overall board score'',
            val = VFloat (FloatDiv (FloatOf (group score12_match 1)) 100),
            comments = ''Outstanding achievement''\<rparr>])"

definition ug_rows :: "string \<Rightarrow> row list" where
  "ug_rows t =
     (case re_search ug_re t of
        None \<Rightarrow> []
      | Some ug_match \<Rightarrow>
          [\<lparr>num = 25, key = ''Undergraduate degree'',
            val = VStr (''B.Tech ('' @ group ug_match 1 @ '')''), comments = []\<rparr>])"

definition ug_college_rows :: "string \<Rightarrow> row list" where
  "ug_college_rows t =
     (case re_search ug_college_re t of
        None \<Rightarrow> []
      | Some ug_college_match \<Rightarrow>
          [\<lparr>num = 26, key = ''Undergraduate college'', val = VStr (group ug_college_match 1),
            comments = []\<rparr>])"

definition ug_year_rows :: "string \<Rightarrow> row list" where
  "ug_year_rows t =
     (case re_search ug_year_re t of
        None \<Rightarrow> []
      | Some ug_year_match \<Rightarrow>
          [\<lparr>num = 27, key = ''Undergraduate year'', val = VStr (group ug_year_match 1),
            comments = ug_year_comment\<rparr>])"

definition ug_cgpa_rows :: "string \<Rightarrow> row list" where
  "ug_cgpa_rows t =
     (case re_search ug_cgpa_re t of
        None \<Rightarrow> []
      | Some ug_cgpa_match \<Rightarrow>
          [\<lparr>num = 28, key = ''Undergraduate CGPA'', val = VFloat (FloatOf (group ug_cgpa_match 1)),
            comments = ''On a 10-point scale''\<rparr>])"

definition grad_rows :: "string \<Rightarrow> row list" where
  "grad_rows t =
     (case re_search grad_re t of
        None \<Rightarrow> []
      | Some grad_match \<Rightarrow>
          [\<lparr>num = 29, key = ''Graduation degree'',
            val = VStr (''M.Tech ('' @ group grad_match 1 @ '')''), comments = []\<rparr>])"

definition grad_college_rows :: "string \<Rightarrow> row list" where
  "grad_college_rows t =
     (case re_search grad_college_re t of
        None \<Rightarrow> []
      | Some grad_college_match \<Rightarrow>
          [\<lparr>num = 30, key = ''Graduation college'', val = VStr ''IIT Bombay'',
            comments = ''Continued academic excellence at IIT Bombay''\<rparr>])"

text \<open>The graduation year is not searched for: the row is appended with the constant
  \<open>"2013"\<close> whatever the text is.\<close>

definition grad_year_rows :: "row list" where
  "grad_year_rows = [\<lparr>num = 31, key = ''Graduation year'', val = VStr ''2013'', comments = []\<rparr>]"

definition grad_cgpa_rows :: "string \<Rightarrow> row list" where
  "grad_cgpa_rows t =
     (case re_search grad_cgpa_re t of
        None \<Rightarrow> []
      | Some grad_cgpa_match \<Rightarrow>
          [\<lparr>num = 32, key = ''Graduation CGPA'', val = VFloat (FloatOf (group grad_cgpa_match 1)),
            comments = grad_cgpa_comment\<rparr>])"

definition extract_education_info :: "processor \<Rightarrow> processor" where
  "extract_education_info p =
     (case text_content p of
        None \<Rightarrow> log_append (Cross, ''Error extracting education info: '' @ none_text_error) p
      | Some t \<Rightarrow>
          log_append (Check, ''Education information extracted successfully'')
            (p\<lparr>extracted_data := extracted_data p @ hs_rows t @ year12_rows t @ score12_rows t
                 @ ug_rows t @ ug_college_rows t @ ug_year_rows t @ ug_cgpa_rows t @ grad_rows t
                 @ grad_college_rows t @ grad_year_rows @ grad_cgpa_rows t\<rparr>))"

subsection \<open>Certifications\<close>

definition aws_re :: "node list" where
  "aws_re = lit ''AWS'' @ ws @ lit ''Solutions'' @ ws @ lit ''Architect'' @ ws @ lit ''exam'' @ ws
     @ lit ''in'' @ ws @ grp 1 [Plus Digit] @ ws @ lit ''with'' @ ws @ lit ''a'' @ ws @ lit ''score''
     @ ws @ lit ''of'' @ ws @ grp 2 [Plus Digit]"

definition azure_re :: "node list" where
  "azure_re = lit ''Azure'' @ ws @ lit ''Data'' @ ws @ lit ''Engineer'' @ ws @ lit ''certification''
     @ ws @ lit ''in'' @ ws @ grp 1 [Plus Digit] @ ws @ lit ''with'' @ ws @ grp 2 [Plus Digit] @ ws
     @ lit ''points''"

definition pmp_re :: "node list" where
  "pmp_re = lit ''Project'' @ ws @ lit ''Management'' @ ws @ lit ''Professional'' @ ws
     @ lit ''certification,'' @ ws @ lit ''obtained'' @ ws @ lit ''in'' @ ws @ grp 1 [Plus Digit]"

definition safe_re :: "node list" where
  "safe_re = lit ''SAFe'' @ ws @ lit ''Agilist'' @ ws @ lit ''certification'' @ ws @ lit ''earned''
     @ ws @ lit ''him'' @ ws @ lit ''an'' @ ws @ lit ''outstanding'' @ ws @ grp 1 [Plus Digit]
     @ lit ''%''"

definition complement_comment :: string where
  "complement_comment = ''complement his practical experience and demonstrate his expertise across multiple technology platforms.''"

definition aws_rows :: "string \<Rightarrow> row list" where
  "aws_rows t =
     (case re_search aws_re t of
        None \<Rightarrow> []
      | Some aws_match \<Rightarrow>
          [\<lparr>num = 33, key = ''Certifications 1'', val = VStr ''AWS Solutions Architect'',
            comments = ''Vijay's commitment to continuous learning is evident through his impressive certification scores. He passed the AWS Solutions Architect exam in ''
              @ group aws_match 1 @ '' with a score of '' @ group aws_match 2
              @ '' out of 1000''\<rparr>])"

definition azure_rows :: "string \<Rightarrow> row list" where
  "azure_rows t =
     (case re_search azure_re t of
        None \<Rightarrow> []
      | Some azure_match \<Rightarrow>
          [\<lparr>num = 34, key = ''Certifications 2'', val = VStr ''Azure Data Engineer'',
            comments = ''Pursued in the year '' @ group azure_match 1 @ '' with ''
              @ group azure_match 2 @ '' points.''\<rparr>])"

definition pmp_rows :: "string \<Rightarrow> row list" where
  "pmp_rows t =
     (case re_search pmp_re t of
        None \<Rightarrow> []
      | Some pmp_match \<Rightarrow>
          [\<lparr>num = 35, key = ''Certifications 3'',
            val = VStr ''Project Management Professional certification'',
            comments = ''Obtained in '' @ group pmp_match 1 @ '', was achieved with an ''
              @ [CHR 0x22] @ ''Above Target'' @ [CHR 0x22] @ '' rating from PMI, These certifications ''
              @ complement_comment\<rparr>])"

definition safe_rows :: "string \<Rightarrow> row list" where
  "safe_rows t =
     (case re_search safe_re t of
        None \<Rightarrow> []
      | Some safe_match \<Rightarrow>
          [\<lparr>num = 36, key = ''Certifications 4'', val = VStr ''SAFe Agilist certification'',
            comments = ''Earned him an outstanding '' @ group safe_match 1 @ ''% score. Certifications ''
              @ complement_comment\<rparr>])"

definition extract_certifications :: "processor \<Rightarrow> processor" where
  "extract_certifications p =
     (case text_content p of
        None \<Rightarrow> log_append (Cross, ''Error extracting certifications: '' @ none_text_error) p
      | Some t \<Rightarrow>
          log_append (Check, ''Certifications extracted successfully'')
            (p\<lparr>extracted_data := extracted_data p @ aws_rows t @ azure_rows t @ pmp_rows t
                 @ safe_rows t\<rparr>))"

subsection \<open>Technical proficiency\<close>

definition tech_re :: "node list" where
  "tech_re = lit ''In'' @ ws @ lit ''terms'' @ ws @ lit ''of'' @ ws @ lit ''technical'' @ ws
     @ lit ''proficiency'' @ [Star DotAll]"

definition tech_rows :: "string \<Rightarrow> row list" where
  "tech_rows t =
     (case re_search tech_re t of
        None \<Rightarrow> []
      | Some tech_section \<Rightarrow>
          [\<lparr>num = 37, key = ''Technical Proficiency'', val = VStr [],
            comments = strip (group tech_section 0)\<rparr>])"

definition extract_technical_proficiency :: "processor \<Rightarrow> processor" where
  "extract_technical_proficiency p =
     (case text_content p of
        None \<Rightarrow>
          log_append (Cross, ''Error extracting technical proficiency: '' @ none_text_error) p
      | Some t \<Rightarrow>
          log_append (Check, ''Technical proficiency extracted successfully'')
            (p\<lparr>extracted_data := extracted_data p @ tech_rows t\<rparr>))"

subsection \<open>The whole run\<close>

text \<open>\<open>not self.text_content\<close> holds for \<open>None\<close> and for the empty string.\<close>

definition no_text :: "string option \<Rightarrow> bool" where
  "no_text t = (case t of None \<Rightarrow> True | Some s \<Rightarrow> s = [])"

text \<open>
  A method returns its outcome (the exception raised, or the value returned) together
  with the processor as the call leaves it.
\<close>

definition process_all :: "processor \<Rightarrow> (py_error + row list) \<times> processor" where
  "process_all p =
     (if no_text (text_content p)
      then (Inl (ValueError ''No text content provided. Please load content first.''), p)
      else
        let p = log_append (Rocket, ''Starting document processing...'') p;
            p = extract_personal_info p;
            p = extract_professional_info p;
            p = extract_education_info p;
            p = extract_certifications p;
            p = extract_technical_proficiency p;
            p = log_append (Check, ''Processing complete! Extracted ''
                  @ str_nat (length (extracted_data p)) @ '' records.'') p
        in (Inr (extracted_data p), p))"

section \<open>Writing JSON: \<open>json.dump(rows, f, indent=2, default=str, ensure_ascii=False)\<close>\<close>

text \<open>
  The rows are a list of dictionaries whose values are integers, strings and floats, so
  \<open>default=str\<close> is never called. With \<open>ensure_ascii=False\<close> the encoder escapes the
  double quote, the backslash and the control characters below 32 and writes every other
  character as it is. With \<open>indent=2\<close> every item of the list and of a dictionary stands
  on a line of its own.
\<close>

datatype jscalar = JInt nat | JStr string | JFloat pyfloat

type_synonym jdict = "(string \<times> jscalar) list"

definition row_to_dict :: "row \<Rightarrow> jdict" where
  "row_to_dict r =
     [(''#'', JInt (num r)), (''Key'', JStr (key r)),
      (''Value'', case val r of VStr s \<Rightarrow> JStr s | VFloat x \<Rightarrow> JFloat x),
      (''Comments'', JStr (comments r))]"

definition hex_digit :: "nat \<Rightarrow> char" where
  "hex_digit d = ''0123456789abcdef'' ! (d mod 16)"

definition json_escape :: "char \<Rightarrow> string" where
  "json_escape c =
     (if c = CHR 0x22 then [CHR 0x5C, CHR 0x22]
      else if c = CHR 0x5C then [CHR 0x5C, CHR 0x5C]
      else if c = CHR 0x0A then [CHR 0x5C, CHR ''n'']
      else if c = CHR 0x0D then [CHR 0x5C, CHR ''r'']
      else if c = CHR 0x09 then [CHR 0x5C, CHR ''t'']
      else if c = CHR 0x08 then [CHR 0x5C, CHR ''b'']
      else if c = CHR 0x0C then [CHR 0x5C, CHR ''f'']
      else if (of_char c :: nat) < 32
        then [CHR 0x5C, CHR ''u'', CHR ''0'', CHR ''0'',
              hex_digit ((of_char c :: nat) div 16), hex_digit ((of_char c :: nat) mod 16)]
      else [c])"

definition encode_basestring :: "string \<Rightarrow> string" where
  "encode_basestring s = CHR 0x22 # concat (map json_escape s) @ [CHR 0x22]"

definition jc :: "string \<Rightarrow> jchar list" where
  "jc s = map JC s"

fun encode_scalar :: "jscalar \<Rightarrow> jchar list" where
  "encode_scalar (JInt n) = jc (str_nat n)"
| "encode_scalar (JStr s) = jc (encode_basestring s)"
| "encode_scalar (JFloat x) = [FloatTok x]"

fun join :: "'a list \<Rightarrow> 'a list list \<Rightarrow> 'a list" where
  "join sep [] = []"
| "join sep [x] = x"
| "join sep (x # y # ys) = x @ sep @ join sep (y # ys)"

definition newline_indent :: "nat \<Rightarrow> jchar list" where
  "newline_indent k = jc (CHR 0x0A # replicate k CHR '' '')"

definition encode_item :: "string \<times> jscalar \<Rightarrow> jchar list" where
  "encode_item kv = jc (encode_basestring (fst kv)) @ jc '': '' @ encode_scalar (snd kv)"

text \<open>A dictionary that is an item of the outer list: its items are indented by four
  spaces and its closing brace by two.\<close>

definition encode_dict :: "jdict \<Rightarrow> jchar list" where
  "encode_dict d =
     (if d = [] then jc ''{}''
      else jc ''{'' @ newline_indent 4 @ join (jc '','' @ newline_indent 4) (map encode_item d)
             @ newline_indent 2 @ jc ''}'')"

definition json_dumps :: "jdict list \<Rightarrow> jchar list" where
  "json_dumps ds =
     (if ds = [] then jc ''[]''
      else jc ''['' @ newline_indent 2 @ join (jc '','' @ newline_indent 2) (map encode_dict ds)
             @ newline_indent 0 @ jc '']'')"

section \<open>Saving the rows and the run of the demonstration\<close>

definition str_error :: "py_error \<Rightarrow> string" where
  "str_error e =
     (case e of ValueError m \<Rightarrow> m | TypeError m \<Rightarrow> m | OSError m \<Rightarrow> m
      | KeyError k \<Rightarrow> [CHR 0x27] @ k @ [CHR 0x27]
      | IllegalCharacterError v \<Rightarrow> v @ '' cannot be used in worksheets.'')"

definition permission_denied :: "string \<Rightarrow> py_error" where
  "permission_denied filename =
     OSError (''[Errno 13] Permission denied: '' @ [CHR 0x27] @ filename @ [CHR 0x27])"

definition columns :: "string list" where
  "columns = [''#'', ''Key'', ''Value'', ''Comments'']"

subsection \<open>\<open>df.to_excel(filename, index=False, engine='openpyxl')\<close>\<close>

text \<open>
  The data frame of a row list has the four columns of \<open>columns\<close> (none, when the list is
  empty). Writing it with pandas and openpyxl 3.1 goes through these steps, each of which
  can end the write:

    \<^item> a frame of more than 1048576 rows raises \<open>ValueError\<close> before the file is opened;
    \<^item> the file is opened for writing, which raises \<open>OSError\<close> when it cannot be;
    \<^item> the cells are written to the sheet column by column. A string cell is cut to its
      first 32767 characters, and raises \<open>IllegalCharacterError\<close> when it then holds one of
      the control characters a sheet cannot hold (0 to 8, 11, 12, 14 to 31). The column
      names hold none. Numbers are written as they are;
    \<^item> the workbook is saved, also when a cell has raised: the file then holds the cells
      written before that one.
\<close>

definition illegal_character :: "char \<Rightarrow> bool" where
  "illegal_character c =
     (let n = (of_char c :: nat) in n \<le> 8 \<or> n = 11 \<or> n = 12 \<or> (14 \<le> n \<and> n \<le> 31))"

definition check_string :: "string \<Rightarrow> py_error + string" where
  "check_string s =
     (let s = take 32767 s in
      if list_ex illegal_character s then Inl (IllegalCharacterError s) else Inr s)"

text \<open>The string cells of the body in the order they are written: the keys, then the
  values that are strings, then the comments.\<close>

definition string_cells :: "row list \<Rightarrow> string list" where
  "string_cells data =
     map key data
       @ concat (map (\<lambda>r. case val r of VStr s \<Rightarrow> [s] | VFloat x \<Rightarrow> []) data)
       @ map comments data"

fun write_cells :: "string list \<Rightarrow> py_error + unit" where
  "write_cells [] = Inr ()"
| "write_cells (s # cells) =
     (case check_string s of Inl e \<Rightarrow> Inl e | Inr v \<Rightarrow> write_cells cells)"

text \<open>A row as the sheet holds it, with its strings cut.\<close>

definition excel_row :: "row \<Rightarrow> row" where
  "excel_row r =
     \<lparr>num = num r, key = take 32767 (key r),
      val = (case val r of VStr s \<Rightarrow> VStr (take 32767 s) | VFloat x \<Rightarrow> VFloat x),
      comments = take 32767 (comments r)\<rparr>"

definition sheet_too_large :: "nat \<Rightarrow> py_error" where
  "sheet_too_large n =
     ValueError (''This sheet is too large! Your sheet size is: '' @ str_nat n
       @ '', 4 Max sheet size is: 1048576, 16384'')"

definition to_excel ::
  "string \<Rightarrow> row list \<Rightarrow> filesystem \<Rightarrow> (py_error + unit) \<times> filesystem" where
  "to_excel filename data fs =
     (if 1048576 < length data then (Inl (sheet_too_large (length data)), fs)
      else if fs filename = Some Unwritable then (Inl (permission_denied filename), fs)
      else (case write_cells (string_cells data) of
              Inl e \<Rightarrow> (Inl e, fs(filename \<mapsto> PartialXlsx))
            | Inr u \<Rightarrow>
                (Inr (),
                 fs(filename \<mapsto> Xlsx (if data = [] then [] else columns) (map excel_row data)))))"

subsection \<open>The save methods of the pattern-matching processor\<close>

text \<open>
  Both methods raise \<open>ValueError\<close> when there are no rows, before anything is opened.
  Whatever is raised inside the \<open>try\<close>, by the method or by the library, is logged by the
  \<open>except\<close> and raised again.
\<close>

definition save_to_excel ::
  "string \<Rightarrow> processor \<times> filesystem \<Rightarrow> (py_error + unit) \<times> processor \<times> filesystem" where
  "save_to_excel filename w =
     (case w of (p, fs) \<Rightarrow>
        (case (if extracted_data p = []
               then (Inl (ValueError ''No data to save. Please process document first.''), fs)
               else to_excel filename (extracted_data p) fs) of
           (Inl e, fs') \<Rightarrow>
             (Inl e, log_append (Cross, ''Error saving to Excel: '' @ str_error e) p, fs')
         | (Inr u, fs') \<Rightarrow>
             (Inr (), log_append (Check, ''Data saved to '' @ filename) p, fs')))"

definition save_to_json ::
  "string \<Rightarrow> processor \<times> filesystem \<Rightarrow> (py_error + unit) \<times> processor \<times> filesystem" where
  "save_to_json filename w =
     (case w of (p, fs) \<Rightarrow>
        (case (if extracted_data p = []
               then Inl (ValueError ''No data to save. Please process document first.'')
               else if fs filename = Some Unwritable then Inl (permission_denied filename)
               else Inr (JsonFile (json_dumps (map row_to_dict (extracted_data p))))) of
           Inl e \<Rightarrow> (Inl e, log_append (Cross, ''Error saving to JSON: '' @ str_error e) p, fs)
         | Inr f \<Rightarrow>
             (Inr (), log_append (Check, ''Data saved to '' @ filename) p, fs(filename \<mapsto> f))))"

text \<open>
  The calls of \<open>demo_usage\<close>, with the text as a parameter: a new processor, \<open>process_all\<close>,
  then the two saves. An exception ends the run where it is raised.
\<close>

definition run_pipeline ::
  "string \<Rightarrow> filesystem \<Rightarrow> (py_error + row list) \<times> processor \<times> filesystem" where
  "run_pipeline text fs =
     (case process_all (DocumentProcessor (Some text)) of
        (Inl e, p) \<Rightarrow> (Inl e, p, fs)
      | (Inr results, p) \<Rightarrow>
          (case save_to_excel ''Output.xlsx'' (p, fs) of
             (Inl e, p, fs) \<Rightarrow> (Inl e, p, fs)
           | (Inr u, p, fs) \<Rightarrow>
               (case save_to_json ''extracted_data.json'' (p, fs) of
                  (Inl e, p, fs) \<Rightarrow> (Inl e, p, fs)
                | (Inr u, p, fs) \<Rightarrow> (Inr results, p, fs))))"

section \<open>The structured processor (\<open>ai_document_processor.py\<close>)\<close>

text \<open>
  A dictionary is the list of its items in insertion order, which is the order
  \<open>.items()\<close> iterates in; \<open>d.get(k, default)\<close> and \<open>d[k]\<close> look the key up. The
  extraction has a fixed shape: its top-level keys and the keys \<open>first_role\<close>,
  \<open>current_role\<close>, \<open>previous_role\<close>, \<open>high_school\<close>, \<open>12th_passout_year\<close>,
  \<open>12th_board_score\<close>, \<open>undergraduate\<close> and \<open>graduation\<close> are fields of records.
\<close>

type_synonym pydict = "(string \<times> pyval) list"

definition dict_get :: "(string \<times> 'a) list \<Rightarrow> string \<Rightarrow> 'a \<Rightarrow> 'a" where
  "dict_get d k dflt = (case map_of d k of None \<Rightarrow> dflt | Some v \<Rightarrow> v)"

record professional_data =
  first_role :: pydict
  current_role :: pydict
  previous_role :: pydict

record education_data =
  high_school :: pyval
  passout_year_12th :: pyval
  board_score_12th :: pyval
  undergraduate :: pydict
  graduation :: pydict

record ai_extraction =
  personal_info :: pydict
  professional_career :: professional_data
  education :: education_data
  certifications :: "pydict list"
  technical_proficiency :: string

record ai_processor =
  api_key :: "string option"
  processed_data :: "row list"
  ai_analysis :: pydict

definition technical_text :: string where
  "technical_text = ''In terms of technical proficiency, Vijay rates himself highly across various skills, with SQL expertise at a perfect 10 out of 10, reflecting his daily usage since 2012. His Python proficiency scores 9 out of 10, backed by over seven years of practical experience, while his machine learning capabilities rate 8 out of 10, representing five years of hands-on implementation. His cloud platform expertise, including AWS and Azure certifications, also rates 9 out of 10 with more than four years of experience, and his data visualization skills in Power BI and Tableau score 8 out of 10, establishing him as an expert in the field.''"

text \<open>The simulated extraction returns the same literal for every processor and text.\<close>

definition simulate_ai_extraction :: "ai_processor \<Rightarrow> string \<Rightarrow> ai_extraction" where
  "simulate_ai_extraction self text =
     \<lparr>personal_info =
        [(''first_name'', VStr ''Vijay''),
         (''last_name'', VStr ''Kumar''),
         (''date_of_birth'', VStr ''1989-03-15 00:00:00''),
         (''birth_city'', VStr ''Jaipur''),
         (''birth_state'', VStr ''Rajasthan''),
         (''age'', VStr ''35 years''),
         (''blood_group'', VStr ''O+''),
         (''nationality'', VStr ''Indian'')],
      professional_career =
        \<lparr>first_role =
           [(''joining_date'', VStr ''2012-07-01 00:00:00''),
            (''designation'', VStr ''Junior Developer''),
            (''salary'', VStr ''350000''),
            (''currency'', VStr ''INR'')],
         current_role =
           [(''organization'', VStr ''Resse Analytics''),
            (''joining_date'', VStr ''2021-06-15 00:00:00''),
            (''designation'', VStr ''Senior Data Engineer''),
            (''salary'', VStr ''2800000''),
            (''currency'', VStr ''INR'')],
         previous_role =
           [(''organization'', VStr ''LakeCorp Solutions''),
            (''joining_date'', VStr ''2018-02-01 00:00:00''),
            (''end_year'', VStr ''2021''),
            (''starting_designation'', VStr ''Data Analyst'')]\<rparr>,
      education =
        \<lparr>high_school = VStr ''St. Xavier's School, Jaipur'',
         passout_year_12th = VStr ''2007'',
         board_score_12th = VStr ''0.925'',
         undergraduate =
           [(''degree'', VStr ''B.Tech (Computer Science)''),
            (''college'', VStr ''IIT Delhi''),
            (''year'', VStr ''2011''),
            (''cgpa'', VStr ''8.7'')],
         graduation =
           [(''degree'', VStr ''M.Tech (Data Science)''),
            (''college'', VStr ''IIT Bombay''),
            (''year'', VStr ''2013''),
            (''cgpa'', VStr ''9.2'')]\<rparr>,
      certifications =
        [[(''name'', VStr ''AWS Solutions Architect''),
          (''year'', VStr ''2019''),
          (''score'', VStr ''920 out of 1000'')],
         [(''name'', VStr ''Azure Data Engineer''),
          (''year'', VStr ''2020''),
          (''score'', VStr ''875 points'')],
         [(''name'', VStr ''Project Management Professional certification''),
          (''year'', VStr ''2021''),
          (''rating'', VStr ''Above Target'')],
         [(''name'', VStr ''SAFe Agilist certification''),
          (''score'', VStr ''98%'')]],
      technical_proficiency = technical_text\<rparr>"

subsection \<open>Labels\<close>

definition key_mapping :: "(string \<times> string) list" where
  "key_mapping =
     [(''first_name'', ''First Name''),
      (''last_name'', ''Last Name''),
      (''date_of_birth'', ''Date of Birth''),
      (''birth_city'', ''Birth City''),
      (''birth_state'', ''Birth State''),
      (''age'', ''Age''),
      (''blood_group'', ''Blood Group''),
      (''nationality'', ''Nationality'')]"

definition format_key_name :: "string \<Rightarrow> string" where
  "format_key_name k = dict_get key_mapping k (title (replace_chr CHR ''_'' CHR '' '' k))"

definition first_role_mapping :: "(string \<times> string) list" where
  "first_role_mapping =
     [(''joining_date'', ''Joining Date of first professional role''),
      (''designation'', ''Designation of first professional role''),
      (''salary'', ''Salary of first professional role''),
      (''currency'', ''Salary currency of first professional role'')]"

definition format_first_role_key :: "string \<Rightarrow> string" where
  "format_first_role_key k = dict_get first_role_mapping k k"

definition current_role_mapping :: "(string \<times> string) list" where
  "current_role_mapping =
     [(''organization'', ''Current Organization''),
      (''joining_date'', ''Current Joining Date''),
      (''designation'', ''Current Designation''),
      (''salary'', ''Current Salary''),
      (''currency'', ''Current Salary Currency'')]"

definition format_current_role_key :: "string \<Rightarrow> string" where
  "format_current_role_key k = dict_get current_role_mapping k k"

definition previous_role_mapping :: "(string \<times> string) list" where
  "previous_role_mapping =
     [(''organization'', ''Previous Organization''),
      (''joining_date'', ''Previous Joining Date''),
      (''end_year'', ''Previous end year''),
      (''starting_designation'', ''Previous Starting Designation'')]"

definition format_previous_role_key :: "string \<Rightarrow> string" where
  "format_previous_role_key k = dict_get previous_role_mapping k k"

definition undergraduate_mapping :: "(string \<times> string) list" where
  "undergraduate_mapping =
     [(''degree'', ''Undergraduate degree''),
      (''college'', ''Undergraduate college''),
      (''year'', ''Undergraduate year''),
      (''cgpa'', ''Undergraduate CGPA'')]"

definition format_undergraduate_key :: "string \<Rightarrow> string" where
  "format_undergraduate_key k = dict_get undergraduate_mapping k k"

definition graduation_mapping :: "(string \<times> string) list" where
  "graduation_mapping =
     [(''degree'', ''Graduation degree''),
      (''college'', ''Graduation college''),
      (''year'', ''Graduation year''),
      (''cgpa'', ''Graduation CGPA'')]"

definition format_graduation_key :: "string \<Rightarrow> string" where
  "format_graduation_key k = dict_get graduation_mapping k k"

subsection \<open>Comments\<close>

definition personal_comments :: "(string \<times> string) list" where
  "personal_comments =
     [(''birth_city'', pink_city_comment),
      (''birth_state'', pink_city_comment),
      (''age'', age_comment),
      (''blood_group'', ''Emergency contact purposes.''),
      (''nationality'', nationality_comment)]"

definition professional_comments :: "(string \<times> string) list" where
  "professional_comments =
     [(''current_salary'', current_salary_comment),
      (''previous_starting_designation'', ''Promoted in 2019'')]"

definition education_comments :: "(string \<times> string) list" where
  "education_comments =
     [(''12th_passout_year'', year12_comment),
      (''12th_board_score'', ''Outstanding achievement''),
      (''undergraduate_year'', ug_year_comment),
      (''undergraduate_cgpa'', ''On a 10-point scale''),
      (''graduation_cgpa'', grad_cgpa_comment),
      (''graduation_college'', ''Continued academic excellence at IIT Bombay'')]"

definition certification_comments :: "nat \<Rightarrow> string" where
  "certification_comments i =
     (if i = 0 then ''Vijay's commitment to continuous learning is evident through his impressive certification scores. He passed the AWS Solutions Architect exam in 2019 with a score of 920 out of 1000''
      else if i = 1 then ''Pursued in the year 2020 with 875 points.''
      else if i = 2 then ''Obtained in 2021, was achieved with an '' @ [CHR 0x22] @ ''Above Target''
             @ [CHR 0x22] @ '' rating from PMI, These certifications '' @ complement_comment
      else if i = 3 then ''Earned him an outstanding 98% score. Certifications ''
             @ complement_comment
      else [])"

subsection \<open>Flattening\<close>

text \<open>
  The state of \<open>structure_ai_output\<close> is the pair of \<open>structured_data\<close> and \<open>record_num\<close>.
  \<open>emit\<close> is one \<open>append\<close> followed by \<open>record_num += 1\<close>; \<open>emit_items\<close> is a
  \<open>for key, value in d.items()\<close> loop with the label and the comment of its body;
  \<open>emit_certs\<close> is the \<open>for i, cert in enumerate(...)\<close> loop, in which \<open>cert["name"]\<close>
  raises \<open>KeyError\<close> for a certification without a name. \<open>flatten_sections\<close> is
  the part of \<open>structure_ai_output\<close> before the certifications.
\<close>

type_synonym flat_state = "row list \<times> nat"

definition emit :: "string \<Rightarrow> pyval \<Rightarrow> string \<Rightarrow> flat_state \<Rightarrow> flat_state" where
  "emit k v c st =
     (case st of (structured_data, record_num) \<Rightarrow>
        (structured_data @ [\<lparr>num = record_num, key = k, val = v, comments = c\<rparr>],
         record_num + 1))"

fun emit_items ::
  "(string \<Rightarrow> string) \<Rightarrow> (string \<Rightarrow> string) \<Rightarrow> pydict \<Rightarrow> flat_state \<Rightarrow> flat_state" where
  "emit_items label comment [] st = st"
| "emit_items label comment ((k, v) # items) st =
     emit_items label comment items (emit (label k) v (comment k) st)"

definition dict_index :: "(string \<times> 'a) list \<Rightarrow> string \<Rightarrow> py_error + 'a" where
  "dict_index d k = (case map_of d k of None \<Rightarrow> Inl (KeyError k) | Some v \<Rightarrow> Inr v)"

definition cert_label :: "nat \<Rightarrow> string" where
  "cert_label i = ''Certifications '' @ str_nat (i + 1)"

fun emit_certs :: "nat \<Rightarrow> pydict list \<Rightarrow> flat_state \<Rightarrow> py_error + flat_state" where
  "emit_certs i [] st = Inr st"
| "emit_certs i (cert # certs) st =
     (case dict_index cert ''name'' of
        Inl e \<Rightarrow> Inl e
      | Inr name \<Rightarrow>
          emit_certs (i + 1) certs (emit (cert_label i) name (certification_comments i) st))"

definition flatten_sections :: "ai_extraction \<Rightarrow> flat_state" where
  "flatten_sections ai_data =
     (let st = ([], 1);
          st = emit_items format_key_name (\<lambda>k. dict_get personal_comments k [])
                 (personal_info ai_data) st;
          st = emit_items format_first_role_key (\<lambda>k. [])
                 (first_role (professional_career ai_data)) st;
          st = emit_items format_current_role_key
                 (\<lambda>k. dict_get professional_comments (''current_'' @ k) [])
                 (current_role (professional_career ai_data)) st;
          st = emit_items format_previous_role_key
                 (\<lambda>k. dict_get professional_comments (''previous_'' @ k) [])
                 (previous_role (professional_career ai_data)) st;
          st = emit ''High School'' (high_school (education ai_data)) [] st;
          st = emit ''12th standard pass out year'' (passout_year_12th (education ai_data))
                 (dict_get education_comments ''12th_passout_year'' []) st;
          st = emit ''12th overall board score'' (board_score_12th (education ai_data))
                 (dict_get education_comments ''12th_board_score'' []) st;
          st = emit_items format_undergraduate_key
                 (\<lambda>k. dict_get education_comments (''undergraduate_'' @ k) [])
                 (undergraduate (education ai_data)) st;
          st = emit_items format_graduation_key
                 (\<lambda>k. dict_get education_comments (''graduation_'' @ k) [])
                 (graduation (education ai_data)) st
      in st)"

text \<open>\<open>structure_ai_output\<close>: the sections above, then the certifications, then the row
  of the technical summary, which takes the number \<open>record_num\<close> has reached.\<close>

definition structure_ai_output :: "ai_extraction \<Rightarrow> py_error + row list" where
  "structure_ai_output ai_data =
     (case emit_certs 0 (certifications ai_data) (flatten_sections ai_data) of
        Inl e \<Rightarrow> Inl e
      | Inr st \<Rightarrow>
          Inr (fst (emit ''Technical Proficiency'' (VStr []) (technical_proficiency ai_data) st)))"

definition process_document :: "ai_processor \<Rightarrow> string \<Rightarrow> py_error + row list" where
  "process_document self text =
     structure_ai_output (simulate_ai_extraction self text)"

subsection \<open>Saving\<close>

text \<open>The two save methods of the structured processor take the rows as an argument and
  have no check for an empty list and no \<open>except\<close>: an error of the library or of the file
  system is raised as it is.\<close>

definition ai_save_to_excel ::
  "string \<Rightarrow> row list \<Rightarrow> filesystem \<Rightarrow> (py_error + unit) \<times> filesystem" where
  "ai_save_to_excel filename data fs = to_excel filename data fs"

definition ai_save_to_json ::
  "string \<Rightarrow> row list \<Rightarrow> filesystem \<Rightarrow> (py_error + unit) \<times> filesystem" where
  "ai_save_to_json filename data fs =
     (if fs filename = Some Unwritable then (Inl (permission_denied filename), fs)
      else (Inr (), fs(filename \<mapsto> JsonFile (json_dumps (map row_to_dict data)))))"

section \<open>Reading JSON: \<open>json.load\<close> on a list of flat dictionaries\<close>

text \<open>
  The decoder below is \<open>json.loads\<close> restricted to what the rows need: a list of
  dictionaries whose values are strings, non-negative integers and floats. It follows the
  scanner of the \<open>json\<close> module: white space is skipped where the module skips it, a
  string ends at the first unescaped double quote, a raw control character inside a
  string is an error, an integer has no leading zero, and nothing but white space may
  follow the list. \<open>None\<close> is a \<open>JSONDecodeError\<close>, or a text outside this fragment (another
  kind of value, a negative or fractional number written in digits, an escape
  \<open>\uXXXX\<close> of a code point above 255). A dictionary keeps the first position and the
  last value of a key that occurs twice.
\<close>

definition json_ws :: "jchar \<Rightarrow> bool" where
  "json_ws c = (c = JC CHR '' '' \<or> c = JC CHR 0x09 \<or> c = JC CHR 0x0A \<or> c = JC CHR 0x0D)"

definition skip_ws :: "jchar list \<Rightarrow> jchar list" where
  "skip_ws s = dropWhile json_ws s"

definition hex_val :: "char \<Rightarrow> nat option" where
  "hex_val c =
     (let n = (of_char c :: nat) in
      if 48 \<le> n \<and> n \<le> 57 then Some (n - 48)
      else if 97 \<le> n \<and> n \<le> 102 then Some (n - 87)
      else if 65 \<le> n \<and> n \<le> 70 then Some (n - 55)
      else None)"

definition code_point :: "char \<Rightarrow> char \<Rightarrow> char \<Rightarrow> char \<Rightarrow> nat option" where
  "code_point h1 h2 h3 h4 =
     (case (hex_val h1, hex_val h2, hex_val h3, hex_val h4) of
        (Some a, Some b, Some c, Some d) \<Rightarrow> Some (((a * 16 + b) * 16 + c) * 16 + d)
      | _ \<Rightarrow> None)"

definition unescape :: "char \<Rightarrow> char option" where
  "unescape e =
     (if e = CHR 0x22 then Some CHR 0x22
      else if e = CHR 0x5C then Some CHR 0x5C
      else if e = CHR ''/'' then Some CHR ''/''
      else if e = CHR ''b'' then Some CHR 0x08
      else if e = CHR ''f'' then Some CHR 0x0C
      else if e = CHR ''n'' then Some CHR 0x0A
      else if e = CHR ''r'' then Some CHR 0x0D
      else if e = CHR ''t'' then Some CHR 0x09
      else None)"

definition cons_char :: "char \<Rightarrow> (string \<times> jchar list) option \<Rightarrow> (string \<times> jchar list) option" where
  "cons_char c r = (case r of None \<Rightarrow> None | Some (s, rest) \<Rightarrow> Some (c # s, rest))"

text \<open>\<open>scan_string\<close> reads a string from behind its opening quote and returns it with the
  text behind its closing quote.\<close>

fun scan_string :: "jchar list \<Rightarrow> (string \<times> jchar list) option" where
  "scan_string [] = None"
| "scan_string (FloatTok x # s) = None"
| "scan_string (JC c # s) =
     (if c = CHR 0x22 then Some ([], s)
      else if c = CHR 0x5C then
        (case s of
           JC e # s1 \<Rightarrow>
             (if e = CHR ''u'' then
                (case s1 of
                   JC h1 # JC h2 # JC h3 # JC h4 # s2 \<Rightarrow>
                     (case code_point h1 h2 h3 h4 of
                        None \<Rightarrow> None
                      | Some n \<Rightarrow> if n < 256 then cons_char (char_of n) (scan_string s2) else None)
                 | _ \<Rightarrow> None)
              else (case unescape e of
                      None \<Rightarrow> None
                    | Some ch \<Rightarrow> cons_char ch (scan_string s1)))
         | _ \<Rightarrow> None)
      else if (of_char c :: nat) < 32 then None
      else cons_char c (scan_string s))"

definition jdigit :: "jchar \<Rightarrow> bool" where
  "jdigit c = (case c of JC d \<Rightarrow> is_digit d | FloatTok x \<Rightarrow> False)"

definition jchar_char :: "jchar \<Rightarrow> char" where
  "jchar_char c = (case c of JC d \<Rightarrow> d | FloatTok x \<Rightarrow> CHR ''0'')"

text \<open>The digits of an integer: a single \<open>0\<close>, or a run of digits that starts with another
  digit. A fraction or an exponent behind them would make the number a float written in
  digits, which the rows never hold.\<close>

definition scan_number :: "jchar list \<Rightarrow> (jscalar \<times> jchar list) option" where
  "scan_number s =
     (case s of
        FloatTok x # r \<Rightarrow> Some (JFloat x, r)
      | _ \<Rightarrow>
          let ds = (if take 1 s = [JC CHR ''0''] then take 1 s else takeWhile jdigit s);
              r = drop (length ds) s
          in if ds = [] \<or> take 1 r = [JC CHR ''.''] \<or> take 1 r = [JC CHR ''e'']
                \<or> take 1 r = [JC CHR ''E'']
             then None
             else Some (JInt (nat_of_digits (map jchar_char ds)), r))"

definition parse_scalar :: "jchar list \<Rightarrow> (jscalar \<times> jchar list) option" where
  "parse_scalar s =
     (case s of
        JC c # r \<Rightarrow>
          if c = CHR 0x22
          then (case scan_string r of None \<Rightarrow> None | Some (v, rest) \<Rightarrow> Some (JStr v, rest))
          else scan_number s
      | _ \<Rightarrow> scan_number s)"

text \<open>
  The loop over the items of a dictionary, entered behind the opening quote of a key, and
  the loop over the items of the list, entered at the first character of an item. Each
  round reads at least one character, so as many rounds as the text has characters are
  enough; the first argument bounds the rounds.
\<close>

fun parse_members :: "nat \<Rightarrow> jchar list \<Rightarrow> (jdict \<times> jchar list) option" where
  "parse_members 0 s = None"
| "parse_members (Suc fuel) s =
     (case scan_string s of
        None \<Rightarrow> None
      | Some (k, s1) \<Rightarrow>
          (case skip_ws s1 of
             JC c # s2 \<Rightarrow>
               if c \<noteq> CHR '':'' then None
               else
                 (case parse_scalar (skip_ws s2) of
                    None \<Rightarrow> None
                  | Some (v, s3) \<Rightarrow>
                      (case skip_ws s3 of
                         JC d # s4 \<Rightarrow>
                           if d = CHR ''}'' then Some ([(k, v)], s4)
                           else if d = CHR '','' then
                             (case skip_ws s4 of
                                JC q # s5 \<Rightarrow>
                                  if q = CHR 0x22
                                  then (case parse_members fuel s5 of
                                          None \<Rightarrow> None
                                        | Some (m, rest) \<Rightarrow> Some ((k, v) # m, rest))
                                  else None
                              | _ \<Rightarrow> None)
                           else None
                       | _ \<Rightarrow> None))
           | _ \<Rightarrow> None))"

definition py_dict :: "jdict \<Rightarrow> jdict" where
  "py_dict pairs = foldl (\<lambda>d kv. AList.update (fst kv) (snd kv) d) [] pairs"

text \<open>\<open>parse_object\<close> reads a dictionary from behind its opening brace.\<close>

definition parse_object :: "jchar list \<Rightarrow> (jdict \<times> jchar list) option" where
  "parse_object s =
     (case skip_ws s of
        JC c # r \<Rightarrow>
          if c = CHR ''}'' then Some ([], r)
          else if c = CHR 0x22
          then (case parse_members (Suc (length r)) r of
                  None \<Rightarrow> None
                | Some (pairs, rest) \<Rightarrow> Some (py_dict pairs, rest))
          else None
      | _ \<Rightarrow> None)"

fun parse_elements :: "nat \<Rightarrow> jchar list \<Rightarrow> (jdict list \<times> jchar list) option" where
  "parse_elements 0 s = None"
| "parse_elements (Suc fuel) s =
     (case s of
        JC c # s1 \<Rightarrow>
          if c \<noteq> CHR ''{'' then None
          else
            (case parse_object s1 of
               None \<Rightarrow> None
             | Some (d, s2) \<Rightarrow>
                 (case skip_ws s2 of
                    JC e # s3 \<Rightarrow>
                      if e = CHR '']'' then Some ([d], s3)
                      else if e = CHR '','' then
                        (case parse_elements fuel (skip_ws s3) of
                           None \<Rightarrow> None
                         | Some (ds, rest) \<Rightarrow> Some (d # ds, rest))
                      else None
                  | _ \<Rightarrow> None))
      | _ \<Rightarrow> None)"

definition json_loads :: "jchar list \<Rightarrow> jdict list option" where
  "json_loads s =
     (case skip_ws s of
        JC c # s1 \<Rightarrow>
          if c \<noteq> CHR ''['' then None
          else
            (case (case skip_ws s1 of
                     JC e # s2 \<Rightarrow>
                       if e = CHR '']'' then Some ([], s2)
                       else parse_elements (Suc (length s1)) (skip_ws s1)
                   | _ \<Rightarrow> None) of
               None \<Rightarrow> None
             | Some (ds, rest) \<Rightarrow> if skip_ws rest = [] then Some ds else None)
      | _ \<Rightarrow> None)"

definition read_json :: "filesystem \<Rightarrow> string \<Rightarrow> jdict list option" where
  "read_json fs filename =
     (case fs filename of Some (JsonFile text) \<Rightarrow> json_loads text | _ \<Rightarrow> None)"

section \<open>Notions the claims are stated with\<close>

text \<open>The \<open>#\<close> values of a row sequence are exactly \<open>1, ..., n\<close>, \<open>n\<close> its length.\<close>

definition gapless :: "row list \<Rightarrow> bool" where
  "gapless rows = (map num rows = [1..<Suc (length rows)])"

text \<open>The invariant of the flattening loops: the rows so far are numbered from 1 up to,
  and without, \<open>record_num\<close>.\<close>

definition numbered :: "flat_state \<Rightarrow> bool" where
  "numbered st = (map num (fst st) = [1..<snd st] \<and> 1 \<le> snd st)"

text \<open>The rows the five sections append for a text, in the order of the run.\<close>

definition personal_rows :: "string \<Rightarrow> row list" where
  "personal_rows t =
     name_rows t @ dob_rows t @ birth_rows t @ age_rows t @ blood_rows t @ nationality_rows t"

definition professional_rows :: "string \<Rightarrow> row list" where
  "professional_rows t = first_job_rows t @ current_job_rows t @ prev_job_rows t"

definition education_rows :: "string \<Rightarrow> row list" where
  "education_rows t =
     hs_rows t @ year12_rows t @ score12_rows t @ ug_rows t @ ug_college_rows t @ ug_year_rows t
       @ ug_cgpa_rows t @ grad_rows t @ grad_college_rows t @ grad_year_rows @ grad_cgpa_rows t"

definition certification_rows :: "string \<Rightarrow> row list" where
  "certification_rows t = aws_rows t @ azure_rows t @ pmp_rows t @ safe_rows t"

definition all_rows :: "string \<Rightarrow> row list" where
  "all_rows t =
     personal_rows t @ professional_rows t @ education_rows t @ certification_rows t
       @ tech_rows t"

text \<open>
  The rules of the pattern-matching processor, as a table: the patterns that must all
  match for the rule's rows to be appended, and the \<open>#\<close> values written in those rows.
  The row 21 is appended inside the block of rows 18 to 20; the row 31 has no pattern.
\<close>

definition rule_table :: "(node list list \<times> nat list) list" where
  "rule_table =
     [([name_re], [1, 2]), ([dob_re], [3]), ([birth_re], [4, 5]), ([age_re], [6]),
      ([blood_re], [7]), ([nationality_re], [8]),
      ([first_job_re], [9, 10, 11, 12]), ([current_job_re], [13, 14, 15, 16, 17]),
      ([prev_job_re], [18, 19, 20]), ([prev_job_re, prev_designation_re], [21]),
      ([hs_re], [22]), ([year12_re], [23]), ([score12_re], [24]), ([ug_re], [25]),
      ([ug_college_re], [26]), ([ug_year_re], [27]), ([ug_cgpa_re], [28]), ([grad_re], [29]),
      ([grad_college_re], [30]), ([], [31]), ([grad_cgpa_re], [32]),
      ([aws_re], [33]), ([azure_re], [34]), ([pmp_re], [35]), ([safe_re], [36]),
      ([tech_re], [37])]"

definition matches :: "string \<Rightarrow> node list \<Rightarrow> bool" where
  "matches t re = (re_search re t \<noteq> None)"

definition matched_numbers :: "string \<Rightarrow> nat list" where
  "matched_numbers t =
     concat (map (\<lambda>rule. if list_all (matches t) (fst rule) then snd rule else []) rule_table)"

text \<open>The log of a run of \<open>process_all\<close> that ends with \<open>n\<close> rows: the start banner, one
  success entry for each section and the closing entry with the count.\<close>

definition run_log :: "nat \<Rightarrow> log_entry list" where
  "run_log n =
     [(Rocket, ''Starting document processing...''),
      (Check, ''Personal information extracted successfully''),
      (Check, ''Professional information extracted successfully''),
      (Check, ''Education information extracted successfully''),
      (Check, ''Certifications extracted successfully''),
      (Check, ''Technical proficiency extracted successfully''),
      (Check, ''Processing complete! Extracted '' @ str_nat n @ '' records.'')]"



definition alice :: string where
  "alice = ''Alice Smith was born on June 5, 1990, in Pune, Maharashtra, making him 34 years old as of 2024.''"

text \<open>A text whose four dates match the date pattern and fail to parse: none of them names
  a month.\<close>

definition odd_dates :: string where
  "odd_dates = ''A B was born on Foo 5, 1990, in C, D. His professional journey began on Bar 1, 2012 as a Dev with an annual salary of 1,000 INR, with his current role at X beginning on Baz 15, 2021 as a Lead earning 2,000 INR. He worked at Z from Qux 1, 2018 to 2021''"



text \<open>
  The result \<open>r\<close> is the title-cased form of \<open>s\<close>: of the same length, with every character
  that starts the string or follows an uncased character in upper case and every other
  character in lower case (an uncased character is its own upper and lower case).
\<close>

definition is_cased :: "char \<Rightarrow> bool" where
  "is_cased c = (is_lower c \<or> is_upper c)"

definition title_cased :: "string \<Rightarrow> string \<Rightarrow> bool" where
  "title_cased s r =
     (length r = length s
      \<and> (\<forall>i < length s.
            r ! i = (if i = 0 \<or> \<not> is_cased (s ! (i - 1)) then to_upper (s ! i)
                     else to_lower (s ! i))))"

text \<open>A certification that has a name, and the row of position \<open>j\<close> (from 0) of a list of
  certifications whose first row takes the number \<open>n\<close>.\<close>

definition has_name :: "pydict \<Rightarrow> bool" where
  "has_name cert = (map_of cert ''name'' \<noteq> None)"

definition cert_row :: "nat \<Rightarrow> pydict list \<Rightarrow> nat \<Rightarrow> row" where
  "cert_row n certs j =
     \<lparr>num = n + j, key = ''Certifications '' @ str_nat (j + 1),
      val = the (map_of (certs ! j) ''name''), comments = certification_comments j\<rparr>"

section \<open>The structured path does not read the text\<close>

text \<open>
  C6. For every pair of input texts (and of processors) the simulated extraction returns
  the same data and \<open>process_document\<close> returns the same rows: the result is the literal
  written in \<open>simulate_ai_extraction\<close>, flattened, whatever the text is.
\<close>

theorem structured_path_ignores_text:
  "simulate_ai_extraction self1 text1 = simulate_ai_extraction self2 text2
   \<and> process_document self1 text1 = process_document self2 text2"
  by (simp add: process_document_def simulate_ai_extraction_def)

section \<open>The empty text\<close>

text \<open>
  C2. On the empty string the run of the pattern-matching pipeline ends in
  \<open>process_all\<close> with the \<open>ValueError\<close> for a missing text: the processor is left as it
  was built, with no row and no log entry, and the file system is unchanged. The two save
  methods, called on that processor all the same, raise before they open a file and
  write nothing either.
\<close>

theorem empty_input_is_fatal:
  "run_pipeline [] fs =
     (Inl (ValueError ''No text content provided. Please load content first.''),
      DocumentProcessor (Some []), fs)
   \<and> extracted_data (DocumentProcessor (Some [])) = []
   \<and> fst (save_to_excel xlsx (DocumentProcessor (Some []), fs)) =
       Inl (ValueError ''No data to save. Please process document first.'')
   \<and> snd (snd (save_to_excel xlsx (DocumentProcessor (Some []), fs))) = fs
   \<and> fst (save_to_json json (DocumentProcessor (Some []), fs)) =
       Inl (ValueError ''No data to save. Please process document first.'')
   \<and> snd (snd (save_to_json json (DocumentProcessor (Some []), fs))) = fs"
  by (simp add: run_pipeline_def process_all_def no_text_def DocumentProcessor_def
      save_to_excel_def save_to_json_def)

section \<open>The run of the pattern-matching processor, section by section\<close>

lemma extract_personal_info_Some:
  "text_content p = Some t \<Longrightarrow>
   extract_personal_info p =
     p\<lparr>extracted_data := extracted_data p @ personal_rows t,
       processing_log := processing_log p
         @ [(Check, ''Personal information extracted successfully'')]\<rparr>"
  by (simp add: extract_personal_info_def personal_rows_def log_append_def)

lemma extract_professional_info_Some:
  "text_content p = Some t \<Longrightarrow>
   extract_professional_info p =
     p\<lparr>extracted_data := extracted_data p @ professional_rows t,
       processing_log := processing_log p
         @ [(Check, ''Professional information extracted successfully'')]\<rparr>"
  by (simp add: extract_professional_info_def professional_rows_def log_append_def)

lemma extract_education_info_Some:
  "text_content p = Some t \<Longrightarrow>
   extract_education_info p =
     p\<lparr>extracted_data := extracted_data p @ education_rows t,
       processing_log := processing_log p
         @ [(Check, ''Education information extracted successfully'')]\<rparr>"
  by (simp add: extract_education_info_def education_rows_def log_append_def)

lemma extract_certifications_Some:
  "text_content p = Some t \<Longrightarrow>
   extract_certifications p =
     p\<lparr>extracted_data := extracted_data p @ certification_rows t,
       processing_log := processing_log p
         @ [(Check, ''Certifications extracted successfully'')]\<rparr>"
  by (simp add: extract_certifications_def certification_rows_def log_append_def)

lemma extract_technical_proficiency_Some:
  "text_content p = Some t \<Longrightarrow>
   extract_technical_proficiency p =
     p\<lparr>extracted_data := extracted_data p @ tech_rows t,
       processing_log := processing_log p
         @ [(Check, ''Technical proficiency extracted successfully'')]\<rparr>"
  by (simp add: extract_technical_proficiency_def log_append_def)

lemma process_all_Some:
  assumes "text_content p = Some t" and "t \<noteq> []"
  shows "process_all p =
     (Inr (extracted_data p @ all_rows t),
      p\<lparr>extracted_data := extracted_data p @ all_rows t,
        processing_log := processing_log p
          @ run_log (length (extracted_data p @ all_rows t))\<rparr>)"
proof -
  have nt: "\<not> no_text (text_content p)"
    using assms by (simp add: no_text_def)
  show ?thesis
    unfolding process_all_def
    using assms(1) nt
    by (simp add: Let_def log_append_def extract_personal_info_Some
        extract_professional_info_Some extract_education_info_Some
        extract_certifications_Some extract_technical_proficiency_Some
        all_rows_def run_log_def)
qed

lemma process_all_fresh:
  assumes "t \<noteq> []"
  shows "process_all (DocumentProcessor (Some t)) =
     (Inr (all_rows t),
      \<lparr>text_content = Some t, extracted_data = all_rows t,
       processing_log = run_log (length (all_rows t))\<rparr>)"
  using process_all_Some [of "DocumentProcessor (Some t)" t] assms
  by (simp add: DocumentProcessor_def)

lemma all_rows_nonempty: "all_rows t \<noteq> []"
  by (simp add: all_rows_def education_rows_def grad_year_rows_def)

section \<open>The numbers of the rows a text produces\<close>

lemma rule_numbers:
  "map num (name_rows t) = (if matches t name_re then [1, 2] else [])"
  "map num (dob_rows t) = (if matches t dob_re then [3] else [])"
  "map num (birth_rows t) = (if matches t birth_re then [4, 5] else [])"
  "map num (age_rows t) = (if matches t age_re then [6] else [])"
  "map num (blood_rows t) = (if matches t blood_re then [7] else [])"
  "map num (nationality_rows t) = (if matches t nationality_re then [8] else [])"
  "map num (first_job_rows t) = (if matches t first_job_re then [9, 10, 11, 12] else [])"
  "map num (current_job_rows t) = (if matches t current_job_re then [13, 14, 15, 16, 17] else [])"
  "map num (prev_designation_rows t) = (if matches t prev_designation_re then [21] else [])"
  "map num (hs_rows t) = (if matches t hs_re then [22] else [])"
  "map num (year12_rows t) = (if matches t year12_re then [23] else [])"
  "map num (score12_rows t) = (if matches t score12_re then [24] else [])"
  "map num (ug_rows t) = (if matches t ug_re then [25] else [])"
  "map num (ug_college_rows t) = (if matches t ug_college_re then [26] else [])"
  "map num (ug_year_rows t) = (if matches t ug_year_re then [27] else [])"
  "map num (ug_cgpa_rows t) = (if matches t ug_cgpa_re then [28] else [])"
  "map num (grad_rows t) = (if matches t grad_re then [29] else [])"
  "map num (grad_college_rows t) = (if matches t grad_college_re then [30] else [])"
  "map num (grad_cgpa_rows t) = (if matches t grad_cgpa_re then [32] else [])"
  "map num (aws_rows t) = (if matches t aws_re then [33] else [])"
  "map num (azure_rows t) = (if matches t azure_re then [34] else [])"
  "map num (pmp_rows t) = (if matches t pmp_re then [35] else [])"
  "map num (safe_rows t) = (if matches t safe_re then [36] else [])"
  "map num (tech_rows t) = (if matches t tech_re then [37] else [])"
  "map num (prev_job_rows t) =
     (if matches t prev_job_re
      then [18, 19, 20] @ (if matches t prev_designation_re then [21] else []) else [])"
  "map num grad_year_rows = [31]"
  by (simp_all add: matches_def name_rows_def dob_rows_def birth_rows_def age_rows_def
      blood_rows_def nationality_rows_def first_job_rows_def current_job_rows_def
      prev_designation_rows_def hs_rows_def year12_rows_def score12_rows_def ug_rows_def
      ug_college_rows_def ug_year_rows_def ug_cgpa_rows_def grad_rows_def grad_college_rows_def
      grad_cgpa_rows_def aws_rows_def azure_rows_def pmp_rows_def safe_rows_def tech_rows_def
      prev_job_rows_def grad_year_rows_def split: option.split)

lemma numbers_all_rows: "map num (all_rows t) = matched_numbers t"
  by (simp add: all_rows_def personal_rows_def professional_rows_def education_rows_def
      certification_rows_def matched_numbers_def rule_table_def rule_numbers)

lemma upt_38: "[1..<38] = [1, 2, 3, 4, 5, 6, 7, 8, 9, 10, 11, 12, 13, 14, 15, 16, 17, 18, 19, 20,
    21, 22, 23, 24, 25, 26, 27, 28, 29, 30, 31, 32, 33, 34, 35, 36, 37 :: nat]"
  by code_simp

lemma subseq_if: "subseq (if c then ns else []) ns"
  by simp

lemma subseq_matched_numbers: "subseq (matched_numbers t) [1..<38]"
proof -
  have split: "[1..<38] =
      [1, 2] @ [3] @ [4, 5] @ [6] @ [7] @ [8] @ [9, 10, 11, 12] @ [13, 14, 15, 16, 17]
      @ [18, 19, 20] @ [21] @ [22] @ [23] @ [24] @ [25] @ [26] @ [27] @ [28] @ [29] @ [30]
      @ [31] @ [32] @ [33] @ [34] @ [35] @ [36] @ [37 :: nat]"
    unfolding upt_38 by simp
  show ?thesis
    unfolding split matched_numbers_def rule_table_def list.map concat.simps fst_conv snd_conv
      append_Nil2
    by (intro list_emb_append_mono subseq_if)
qed

section \<open>The numbering of the flattening loops\<close>

lemma numbered_init: "numbered ([], 1)"
  by (simp add: numbered_def)

lemma numbered_emit: "numbered st \<Longrightarrow> numbered (emit k v c st)"
  by (cases st) (auto simp: numbered_def emit_def)

lemma numbered_emit_items: "numbered st \<Longrightarrow> numbered (emit_items label comment items st)"
  by (induction label comment items st rule: emit_items.induct) (simp_all add: numbered_emit)

lemma numbered_emit_certs:
  "numbered st \<Longrightarrow> emit_certs i certs st = Inr st' \<Longrightarrow> numbered st'"
  by (induction i certs st arbitrary: st' rule: emit_certs.induct)
    (simp_all add: numbered_emit split: sum.splits)

lemma numbered_flatten_sections: "numbered (flatten_sections ai_data)"
  unfolding flatten_sections_def Let_def
  by (intro numbered_emit_items numbered_emit numbered_init)

lemma numbered_gapless: "numbered st \<Longrightarrow> gapless (fst (emit k v c st))"
proof -
  assume "numbered st"
  then have n: "numbered (emit k v c st)"
    by (rule numbered_emit)
  obtain rows n' where e: "emit k v c st = (rows, n')"
    by (cases "emit k v c st")
  from n e have m: "map num rows = [1..<n']" and "1 \<le> n'"
    by (simp_all add: numbered_def)
  from m have "length rows = n' - 1"
    by (metis length_map length_upt)
  with \<open>1 \<le> n'\<close> m e show ?thesis
    by (simp add: gapless_def)
qed

lemma gapless_structure_ai_output:
  assumes "structure_ai_output ai_data = Inr rows"
  shows "gapless rows"
proof -
  from assms obtain st where
    c: "emit_certs 0 (certifications ai_data) (flatten_sections ai_data) = Inr st" and
    r: "rows = fst (emit ''Technical Proficiency'' (VStr []) (technical_proficiency ai_data) st)"
    by (auto simp: structure_ai_output_def split: sum.splits)
  from numbered_flatten_sections c have "numbered st"
    by (rule numbered_emit_certs)
  then show ?thesis
    unfolding r by (rule numbered_gapless)
qed

section \<open>Sequence numbers\<close>

text \<open>
  C1, as the code has it. The structured path counts: for every extraction the \<open>#\<close>
  values of the rows \<open>structure_ai_output\<close> returns are exactly \<open>1, ..., n\<close>. The
  pattern-matching path does not count: each row carries the number written in its rule,
  so the \<open>#\<close> values of a run are the numbers of the rules that matched, in the order of
  the table; they are a subsequence of \<open>1, ..., 37\<close> (strictly increasing, none used
  twice), with a gap for every rule that did not match.
\<close>

theorem sequence_numbers:
  "(structure_ai_output ai_data = Inr rows \<longrightarrow> gapless rows)
   \<and> (fst (process_all (DocumentProcessor (Some t))) = Inr rows'
        \<longrightarrow> map num rows' = matched_numbers t \<and> subseq (map num rows') [1..<38])"
proof (intro conjI impI)
  assume "structure_ai_output ai_data = Inr rows"
  then show "gapless rows"
    by (rule gapless_structure_ai_output)
next
  assume a: "fst (process_all (DocumentProcessor (Some t))) = Inr rows'"
  have "t \<noteq> []"
    using a by (auto simp: process_all_def no_text_def DocumentProcessor_def)
  with a have "rows' = all_rows t"
    by (simp add: process_all_fresh)
  then show m: "map num rows' = matched_numbers t"
    by (simp add: numbers_all_rows)
  show "subseq (map num rows') [1..<38]"
    unfolding m by (rule subseq_matched_numbers)
qed

text \<open>The theorem at the literal of the simulated extraction and at the text of the
  scenario with Alice Smith.\<close>

theorem sequence_numbers_witness:
  "(case structure_ai_output
           (simulate_ai_extraction \<lparr>api_key = None, processed_data = [], ai_analysis = []\<rparr> alice) of
      Inl e \<Rightarrow> False
    | Inr rows \<Rightarrow> length rows = 37 \<and> gapless rows)
   \<and> (case fst (process_all (DocumentProcessor (Some alice))) of
         Inl e \<Rightarrow> False
       | Inr rows \<Rightarrow> map num rows = [1, 2, 3, 4, 5, 6, 31] \<and> subseq (map num rows) [1..<38])"
proof -
  let ?d = "simulate_ai_extraction \<lparr>api_key = None, processed_data = [], ai_analysis = []\<rparr> alice"
  have l: "(case structure_ai_output ?d of Inl e \<Rightarrow> False | Inr rows \<Rightarrow> length rows = 37)"
    by code_simp
  then obtain rows where r: "structure_ai_output ?d = Inr rows" and n: "length rows = 37"
    by (cases "structure_ai_output ?d") auto
  have m: "(case fst (process_all (DocumentProcessor (Some alice))) of
              Inl e \<Rightarrow> False | Inr rows \<Rightarrow> map num rows = [1, 2, 3, 4, 5, 6, 31])"
    by code_simp
  then obtain rows' where r': "fst (process_all (DocumentProcessor (Some alice))) = Inr rows'"
    and n': "map num rows' = [1, 2, 3, 4, 5, 6, 31]"
    by (cases "fst (process_all (DocumentProcessor (Some alice)))") auto
  have g: "gapless rows"
    using sequence_numbers [of ?d rows alice rows'] r by blast
  have s: "subseq (map num rows') [1..<38]"
    using sequence_numbers [of ?d rows alice rows'] r' by blast
  show ?thesis
    unfolding r r' using n g n' s by simp
qed

text \<open>
  C1 as stated fails on the pattern-matching path: for the text \<open>x\<close> no pattern matches,
  the run produces the one row of the graduation year, and its \<open>#\<close> is 31, not 1.
\<close>

theorem sequence_numbers_counterexample:
  "fst (process_all (DocumentProcessor (Some ''x''))) = Inr grad_year_rows
   \<and> map num grad_year_rows = [31]
   \<and> \<not> gapless grad_year_rows"
  by code_simp

section \<open>Rules that do not match, and the saves\<close>













lemma save_to_json_ok:
  assumes "extracted_data p \<noteq> []" and "fs filename \<noteq> Some Unwritable"
  shows "save_to_json filename (p, fs) =
     (Inr (), log_append (Check, ''Data saved to '' @ filename) p,
      fs(filename \<mapsto> JsonFile (json_dumps (map row_to_dict (extracted_data p)))))"
  using assms by (simp add: save_to_json_def)

section \<open>A rule that does not match\<close>




section \<open>The scenario with Alice Smith\<close>

text \<open>
  C5, as the code has it. The run on the text of the scenario returns seven rows: the first
  name Alice as row 1 and the last name Smith as row 2, the date of birth as row 3, the
  birth city Pune as row 4 and the birth state Maharashtra as row 5, the age as row 6, and
  the row of the graduation year, which every run appends, as row 31. The sequence
  numbers are 1, 2, 3, 4, 5, 6, 31.
\<close>

theorem alice_rows:
  "fst (process_all (DocumentProcessor (Some alice))) =
     Inr [\<lparr>num = 1, key = ''First Name'', val = VStr ''Alice'', comments = []\<rparr>,
          \<lparr>num = 2, key = ''Last Name'', val = VStr ''Smith'', comments = []\<rparr>,
          \<lparr>num = 3, key = ''Date of Birth'', val = VStr ''1990-06-05 00:00:00'', comments = []\<rparr>,
          \<lparr>num = 4, key = ''Birth City'', val = VStr ''Pune'', comments = pink_city_comment\<rparr>,
          \<lparr>num = 5, key = ''Birth State'', val = VStr ''Maharashtra'',
           comments = pink_city_comment\<rparr>,
          \<lparr>num = 6, key = ''Age'', val = VStr ''34 years'', comments = age_comment\<rparr>,
          \<lparr>num = 31, key = ''Graduation year'', val = VStr ''2013'', comments = []\<rparr>]"
  by code_simp

text \<open>
  C5 as stated fails on the sequence numbers: the rows of the name and of the birth place
  alone are numbered 1, 2, 4, 5, and the rows of the whole run 1, 2, 3, 4, 5, 6, 31; neither
  is 1, 2, 3, 4.
\<close>

theorem alice_numbers_counterexample:
  "map num (name_rows alice @ birth_rows alice) = [1, 2, 4, 5]
   \<and> map num (extracted_data (snd (process_all (DocumentProcessor (Some alice)))))
       = [1, 2, 3, 4, 5, 6, 31]
   \<and> [1, 2, 4, 5] \<noteq> [1, 2, 3, 4 :: nat]
   \<and> [1, 2, 3, 4, 5, 6, 31] \<noteq> [1, 2, 3, 4 :: nat]"
  by code_simp

section \<open>Running the pipeline twice\<close>

text \<open>
  C7, as the code has it. \<open>process_all\<close> never empties \<open>extracted_data\<close>: it appends the
  rows of the text to the rows the processor holds and returns them all. So a call on a
  newly built processor returns the rows of the text and nothing else, whichever call it
  is, while a second call on the same processor returns the rows of the text twice, one
  copy after the other with every \<open>#\<close> value used again, which is not what the first call
  returned; the log then holds the seven entries of each call. (The list returned is the
  processor's own list, so what the first call returned has grown too when the second
  returns.) The structured path keeps nothing between two calls: \<open>process_document\<close>
  returns the same rows for the same text, on the same processor or on another.
\<close>

theorem second_run_appends:
  assumes "text_content p = Some t" and "t \<noteq> []"
  shows "fst (process_all p) = Inr (extracted_data p @ all_rows t)
         \<and> fst (process_all (snd (process_all p))) =
             Inr (extracted_data p @ all_rows t @ all_rows t)
         \<and> fst (process_all (snd (process_all p))) \<noteq> fst (process_all p)
         \<and> processing_log (snd (process_all (snd (process_all p)))) =
             processing_log p
               @ run_log (length (extracted_data p) + length (all_rows t))
               @ run_log (length (extracted_data p) + length (all_rows t) + length (all_rows t))
         \<and> fst (process_all (DocumentProcessor (Some t))) = Inr (all_rows t)
         \<and> process_document self t = process_document self' t"
proof -
  let ?q = "p\<lparr>extracted_data := extracted_data p @ all_rows t,
      processing_log := processing_log p
        @ run_log (length (extracted_data p @ all_rows t))\<rparr>"
  have first: "process_all p = (Inr (extracted_data p @ all_rows t), ?q)"
    using assms by (rule process_all_Some)
  have "text_content ?q = Some t"
    using assms(1) by simp
  from process_all_Some [OF this assms(2)]
  have second: "process_all ?q =
      (Inr (extracted_data ?q @ all_rows t),
       ?q\<lparr>extracted_data := extracted_data ?q @ all_rows t,
          processing_log := processing_log ?q
            @ run_log (length (extracted_data ?q @ all_rows t))\<rparr>)" .
  have fresh: "fst (process_all (DocumentProcessor (Some t))) = Inr (all_rows t)"
    using assms(2) by (simp add: process_all_fresh)
  have differ: "extracted_data p @ all_rows t @ all_rows t \<noteq> extracted_data p @ all_rows t"
    using all_rows_nonempty [of t] by simp
  have same: "process_document self t = process_document self' t"
    by (simp add: process_document_def simulate_ai_extraction_def)
  show ?thesis
    unfolding first snd_conv second fst_conv
    using differ fresh same by (simp add: add.assoc)
qed

text \<open>The theorem at the text about Alice Smith, on a newly built processor: the first
  call returns seven rows and the second call fourteen.\<close>

theorem second_run_appends_witness:
  "text_content (DocumentProcessor (Some alice)) = Some alice
   \<and> alice \<noteq> []
   \<and> fst (process_all (DocumentProcessor (Some alice))) = Inr (all_rows alice)
   \<and> fst (process_all (snd (process_all (DocumentProcessor (Some alice))))) =
       Inr (all_rows alice @ all_rows alice)
   \<and> map num (all_rows alice @ all_rows alice) = [1, 2, 3, 4, 5, 6, 31, 1, 2, 3, 4, 5, 6, 31]
   \<and> length (processing_log (snd (process_all (snd (process_all (DocumentProcessor (Some alice))))))) = 14"
proof -
  have t: "text_content (DocumentProcessor (Some alice)) = Some alice"
    by (simp add: DocumentProcessor_def)
  have e: "extracted_data (DocumentProcessor (Some alice)) = []"
    "processing_log (DocumentProcessor (Some alice)) = []"
    by (simp_all add: DocumentProcessor_def)
  have ne: "alice \<noteq> []"
    by (simp add: alice_def)
  have nums: "map num (all_rows alice) = [1, 2, 3, 4, 5, 6, 31]"
    by code_simp
  note th = second_run_appends [OF t ne]
  from th have first: "fst (process_all (DocumentProcessor (Some alice))) = Inr (all_rows alice)"
    by blast
  from th have second: "fst (process_all (snd (process_all (DocumentProcessor (Some alice))))) =
      Inr (extracted_data (DocumentProcessor (Some alice)) @ all_rows alice @ all_rows alice)"
    by blast
  from th have log: "processing_log
        (snd (process_all (snd (process_all (DocumentProcessor (Some alice)))))) =
      processing_log (DocumentProcessor (Some alice))
        @ run_log (length (extracted_data (DocumentProcessor (Some alice)))
                   + length (all_rows alice))
        @ run_log (length (extracted_data (DocumentProcessor (Some alice)))
                   + length (all_rows alice) + length (all_rows alice))"
    by blast
  have len: "length (run_log n) = 7" for n
    by (simp add: run_log_def)
  show ?thesis
    using t ne first nums by (simp add: second log e len)
qed

text \<open>
  C7 as stated fails for two calls on the same processor. For the text \<open>x\<close> the first
  call returns the row of the graduation year, and the second call on that processor
  returns it twice, both rows numbered 31.
\<close>

theorem second_run_counterexample:
  "fst (process_all (DocumentProcessor (Some ''x''))) = Inr grad_year_rows
   \<and> fst (process_all (snd (process_all (DocumentProcessor (Some ''x''))))) =
       Inr (grad_year_rows @ grad_year_rows)
   \<and> map num (grad_year_rows @ grad_year_rows) = [31, 31]
   \<and> grad_year_rows @ grad_year_rows \<noteq> grad_year_rows"
  by code_simp

section \<open>A date that does not parse\<close>

lemma iso_date_or_None: "strptime_B_d_Y s = None \<Longrightarrow> iso_date_or fallback s = fallback"
  by (simp add: iso_date_or_def)

lemma rows_in_all_rows:
  "set (dob_rows t) \<subseteq> set (all_rows t)"
  "set (first_job_rows t) \<subseteq> set (all_rows t)"
  "set (current_job_rows t) \<subseteq> set (all_rows t)"
  "set (prev_job_rows t) \<subseteq> set (all_rows t)"
  by (auto simp: all_rows_def personal_rows_def professional_rows_def)

text \<open>
  C3, as the code has it. For every non-empty text in which the pattern of a date field
  matches a string that \<open>strptime\<close> rejects, the row of that field is produced with the
  constant written in the \<open>except\<close> branch of the field: \<open>1989-03-15 00:00:00\<close> for the date
  of birth, \<open>2012-07-01 00:00:00\<close>, \<open>2021-06-15 00:00:00\<close> and \<open>2018-02-01 00:00:00\<close> for the
  joining dates of the first, the current and the previous role. The log gets no entry
  for it: it is the start banner, the five success entries and the closing count.
\<close>

theorem malformed_date_uses_constant:
  assumes "t \<noteq> []"
  shows "(\<forall>m. re_search dob_re t = Some m \<and> strptime_B_d_Y (group m 1) = None
            \<longrightarrow> \<lparr>num = 3, key = ''Date of Birth'', val = VStr ''1989-03-15 00:00:00'',
                  comments = []\<rparr> \<in> set (all_rows t))
         \<and> (\<forall>m. re_search first_job_re t = Some m \<and> strptime_B_d_Y (group m 1) = None
              \<longrightarrow> \<lparr>num = 9, key = ''Joining Date of first professional role'',
                    val = VStr ''2012-07-01 00:00:00'', comments = []\<rparr> \<in> set (all_rows t))
         \<and> (\<forall>m. re_search current_job_re t = Some m \<and> strptime_B_d_Y (group m 2) = None
              \<longrightarrow> \<lparr>num = 14, key = ''Current Joining Date'',
                    val = VStr ''2021-06-15 00:00:00'', comments = []\<rparr> \<in> set (all_rows t))
         \<and> (\<forall>m. re_search prev_job_re t = Some m \<and> strptime_B_d_Y (group m 2) = None
              \<longrightarrow> \<lparr>num = 19, key = ''Previous Joining Date'',
                    val = VStr ''2018-02-01 00:00:00'', comments = []\<rparr> \<in> set (all_rows t))
         \<and> process_all (DocumentProcessor (Some t)) =
             (Inr (all_rows t),
              \<lparr>text_content = Some t, extracted_data = all_rows t,
               processing_log = run_log (length (all_rows t))\<rparr>)"
proof (intro conjI allI impI)
  fix m
  assume "re_search dob_re t = Some m \<and> strptime_B_d_Y (group m 1) = None"
  then have "\<lparr>num = 3, key = ''Date of Birth'', val = VStr ''1989-03-15 00:00:00'',
      comments = []\<rparr> \<in> set (dob_rows t)"
    by (simp add: dob_rows_def iso_date_or_None)
  with rows_in_all_rows(1) [of t]
  show "\<lparr>num = 3, key = ''Date of Birth'', val = VStr ''1989-03-15 00:00:00'',
      comments = []\<rparr> \<in> set (all_rows t)"
    by blast
next
  fix m
  assume "re_search first_job_re t = Some m \<and> strptime_B_d_Y (group m 1) = None"
  then have "\<lparr>num = 9, key = ''Joining Date of first professional role'',
      val = VStr ''2012-07-01 00:00:00'', comments = []\<rparr> \<in> set (first_job_rows t)"
    by (simp add: first_job_rows_def iso_date_or_None)
  with rows_in_all_rows(2) [of t]
  show "\<lparr>num = 9, key = ''Joining Date of first professional role'',
      val = VStr ''2012-07-01 00:00:00'', comments = []\<rparr> \<in> set (all_rows t)"
    by blast
next
  fix m
  assume "re_search current_job_re t = Some m \<and> strptime_B_d_Y (group m 2) = None"
  then have "\<lparr>num = 14, key = ''Current Joining Date'',
      val = VStr ''2021-06-15 00:00:00'', comments = []\<rparr> \<in> set (current_job_rows t)"
    by (simp add: current_job_rows_def iso_date_or_None)
  with rows_in_all_rows(3) [of t]
  show "\<lparr>num = 14, key = ''Current Joining Date'',
      val = VStr ''2021-06-15 00:00:00'', comments = []\<rparr> \<in> set (all_rows t)"
    by blast
next
  fix m
  assume "re_search prev_job_re t = Some m \<and> strptime_B_d_Y (group m 2) = None"
  then have "\<lparr>num = 19, key = ''Previous Joining Date'',
      val = VStr ''2018-02-01 00:00:00'', comments = []\<rparr> \<in> set (prev_job_rows t)"
    by (simp add: prev_job_rows_def iso_date_or_None)
  with rows_in_all_rows(4) [of t]
  show "\<lparr>num = 19, key = ''Previous Joining Date'',
      val = VStr ''2018-02-01 00:00:00'', comments = []\<rparr> \<in> set (all_rows t)"
    by blast
next
  show "process_all (DocumentProcessor (Some t)) =
      (Inr (all_rows t),
       \<lparr>text_content = Some t, extracted_data = all_rows t,
        processing_log = run_log (length (all_rows t))\<rparr>)"
    using assms by (rule process_all_fresh)
qed

text \<open>The theorem at a text whose four dates name no month: each of the four patterns
  matches, each date fails to parse, and the four rows carry the four constants.\<close>

theorem malformed_date_uses_constant_witness:
  "odd_dates \<noteq> []
   \<and> (case re_search dob_re odd_dates of None \<Rightarrow> False
       | Some m \<Rightarrow> group m 1 = ''Foo 5, 1990'' \<and> strptime_B_d_Y (group m 1) = None)
   \<and> (case re_search first_job_re odd_dates of None \<Rightarrow> False
       | Some m \<Rightarrow> group m 1 = ''Bar 1, 2012'' \<and> strptime_B_d_Y (group m 1) = None)
   \<and> (case re_search current_job_re odd_dates of None \<Rightarrow> False
       | Some m \<Rightarrow> group m 2 = ''Baz 15, 2021'' \<and> strptime_B_d_Y (group m 2) = None)
   \<and> (case re_search prev_job_re odd_dates of None \<Rightarrow> False
       | Some m \<Rightarrow> group m 2 = ''Qux 1, 2018'' \<and> strptime_B_d_Y (group m 2) = None)
   \<and> \<lparr>num = 3, key = ''Date of Birth'', val = VStr ''1989-03-15 00:00:00'', comments = []\<rparr>
       \<in> set (all_rows odd_dates)
   \<and> \<lparr>num = 9, key = ''Joining Date of first professional role'',
       val = VStr ''2012-07-01 00:00:00'', comments = []\<rparr> \<in> set (all_rows odd_dates)
   \<and> \<lparr>num = 14, key = ''Current Joining Date'', val = VStr ''2021-06-15 00:00:00'',
       comments = []\<rparr> \<in> set (all_rows odd_dates)
   \<and> \<lparr>num = 19, key = ''Previous Joining Date'', val = VStr ''2018-02-01 00:00:00'',
       comments = []\<rparr> \<in> set (all_rows odd_dates)
   \<and> processing_log (snd (process_all (DocumentProcessor (Some odd_dates)))) =
       run_log (length (all_rows odd_dates))"
proof -
  have ne: "odd_dates \<noteq> []"
    by (simp add: odd_dates_def)
  have a: "case re_search dob_re odd_dates of None \<Rightarrow> False
      | Some m \<Rightarrow> group m 1 = ''Foo 5, 1990'' \<and> strptime_B_d_Y (group m 1) = None"
    by code_simp
  have b: "case re_search first_job_re odd_dates of None \<Rightarrow> False
      | Some m \<Rightarrow> group m 1 = ''Bar 1, 2012'' \<and> strptime_B_d_Y (group m 1) = None"
    by code_simp
  have c: "case re_search current_job_re odd_dates of None \<Rightarrow> False
      | Some m \<Rightarrow> group m 2 = ''Baz 15, 2021'' \<and> strptime_B_d_Y (group m 2) = None"
    by code_simp
  have d: "case re_search prev_job_re odd_dates of None \<Rightarrow> False
      | Some m \<Rightarrow> group m 2 = ''Qux 1, 2018'' \<and> strptime_B_d_Y (group m 2) = None"
    by code_simp
  note th = malformed_date_uses_constant [OF ne]
  from a obtain m1 where "re_search dob_re odd_dates = Some m1 \<and> strptime_B_d_Y (group m1 1) = None"
    by (cases "re_search dob_re odd_dates") auto
  with th have r3: "\<lparr>num = 3, key = ''Date of Birth'', val = VStr ''1989-03-15 00:00:00'',
      comments = []\<rparr> \<in> set (all_rows odd_dates)"
    by blast
  from b obtain m2 where
    "re_search first_job_re odd_dates = Some m2 \<and> strptime_B_d_Y (group m2 1) = None"
    by (cases "re_search first_job_re odd_dates") auto
  with th have r9: "\<lparr>num = 9, key = ''Joining Date of first professional role'',
      val = VStr ''2012-07-01 00:00:00'', comments = []\<rparr> \<in> set (all_rows odd_dates)"
    by blast
  from c obtain m3 where
    "re_search current_job_re odd_dates = Some m3 \<and> strptime_B_d_Y (group m3 2) = None"
    by (cases "re_search current_job_re odd_dates") auto
  with th have r14: "\<lparr>num = 14, key = ''Current Joining Date'',
      val = VStr ''2021-06-15 00:00:00'', comments = []\<rparr> \<in> set (all_rows odd_dates)"
    by blast
  from d obtain m4 where
    "re_search prev_job_re odd_dates = Some m4 \<and> strptime_B_d_Y (group m4 2) = None"
    by (cases "re_search prev_job_re odd_dates") auto
  with th have r19: "\<lparr>num = 19, key = ''Previous Joining Date'',
      val = VStr ''2018-02-01 00:00:00'', comments = []\<rparr> \<in> set (all_rows odd_dates)"
    by blast
  from th have p: "process_all (DocumentProcessor (Some odd_dates)) =
      (Inr (all_rows odd_dates),
       \<lparr>text_content = Some odd_dates, extracted_data = all_rows odd_dates,
        processing_log = run_log (length (all_rows odd_dates))\<rparr>)"
    by blast
  show ?thesis
    using ne a b c d r3 r9 r14 r19 by (simp add: p)
qed

text \<open>
  C3 as stated fails on its log: in the text below the date of birth is \<open>Foo 5, 1990\<close>,
  which does not parse; the row takes the constant, and the log is the seven entries of
  any run, all of them behind the rocket or the check mark. No entry reports the date.
\<close>

theorem malformed_date_counterexample:
  "(case re_search dob_re ''A B was born on Foo 5, 1990, in C, D'' of
      None \<Rightarrow> [] | Some m \<Rightarrow> group m 1) = ''Foo 5, 1990''
   \<and> strptime_B_d_Y ''Foo 5, 1990'' = None
   \<and> dob_rows ''A B was born on Foo 5, 1990, in C, D'' =
       [\<lparr>num = 3, key = ''Date of Birth'', val = VStr ''1989-03-15 00:00:00'', comments = []\<rparr>]
   \<and> processing_log
       (snd (process_all (DocumentProcessor (Some ''A B was born on Foo 5, 1990, in C, D'')))) =
       [(Rocket, ''Starting document processing...''),
        (Check, ''Personal information extracted successfully''),
        (Check, ''Professional information extracted successfully''),
        (Check, ''Education information extracted successfully''),
        (Check, ''Certifications extracted successfully''),
        (Check, ''Technical proficiency extracted successfully''),
        (Check, ''Processing complete! Extracted 6 records.'')]"
  by code_simp

section \<open>The rows of the certifications\<close>

lemma numbered_length: "numbered st \<Longrightarrow> snd st = Suc (length (fst st))"
proof -
  assume "numbered st"
  then have m: "map num (fst st) = [1..<snd st]" and p: "1 \<le> snd st"
    by (simp_all add: numbered_def)
  from m have "length (fst st) = snd st - 1"
    by (metis length_map length_upt)
  with p show ?thesis
    by simp
qed

lemma emit_certs_rows:
  "list_all has_name certs \<Longrightarrow>
   emit_certs i certs (rows, n) =
     Inr (rows @ map (\<lambda>j. \<lparr>num = n + j, key = cert_label (i + j),
                           val = the (map_of (certs ! j) ''name''),
                           comments = certification_comments (i + j)\<rparr>) [0..<length certs],
          n + length certs)"
proof (induction certs arbitrary: i rows n)
  case Nil
  then show ?case by simp
next
  case (Cons cert certs)
  from Cons.prems obtain name where name: "map_of cert ''name'' = Some name"
    by (auto simp: has_name_def)
  from Cons.prems have rest: "list_all has_name certs"
    by simp
  show ?case
    using Cons.IH [OF rest, of "Suc i"
        "rows @ [\<lparr>num = n, key = cert_label i, val = name, comments = certification_comments i\<rparr>]"
        "Suc n"]
    by (simp add: dict_index_def name emit_def map_upt_Suc del: upt_Suc)
qed

lemma emit_certs_KeyError:
  "\<not> list_all has_name certs \<Longrightarrow> emit_certs i certs st = Inl (KeyError ''name'')"
proof (induction certs arbitrary: i st)
  case Nil
  then show ?case by simp
next
  case (Cons cert certs)
  show ?case
  proof (cases "has_name cert")
    case True
    then obtain name where name: "map_of cert ''name'' = Some name"
      by (auto simp: has_name_def)
    from True Cons.prems have rest: "\<not> list_all has_name certs"
      by simp
    show ?thesis
      using Cons.IH [OF rest] by (simp add: dict_index_def name)
  next
    case False
    then show ?thesis
      by (simp add: has_name_def dict_index_def)
  qed
qed

text \<open>
  C9, as the code has it. For every extraction whose certifications all have a name, the
  flattener emits, after the rows of the sections before them, one row for each
  certification, in the order of the list: the row of the certification at position \<open>j\<close>
  (from 0) is labelled \<open>Certifications\<close> followed by \<open>j + 1\<close>, carries the name as its value
  and the next sequence number, and one last row follows them. A certification without a
  name makes the flattener raise \<open>KeyError\<close>.
\<close>

theorem certification_rows_by_position:
  "(list_all has_name (certifications ai_data) \<longrightarrow>
      (case structure_ai_output ai_data of
         Inl e \<Rightarrow> False
       | Inr rows \<Rightarrow>
           length rows =
             length (fst (flatten_sections ai_data)) + length (certifications ai_data) + 1
           \<and> (\<forall>j < length (certifications ai_data).
                 rows ! (length (fst (flatten_sections ai_data)) + j) =
                   cert_row (length (fst (flatten_sections ai_data)) + 1)
                     (certifications ai_data) j)))
   \<and> (\<not> list_all has_name (certifications ai_data) \<longrightarrow>
        structure_ai_output ai_data = Inl (KeyError ''name''))"
proof (intro conjI impI)
  assume names: "list_all has_name (certifications ai_data)"
  obtain pre n where st: "flatten_sections ai_data = (pre, n)"
    by (cases "flatten_sections ai_data")
  have n: "n = Suc (length pre)"
    using numbered_length [OF numbered_flatten_sections, of ai_data] st by simp
  let ?certs = "certifications ai_data"
  let ?mid = "map (\<lambda>j. \<lparr>num = n + j, key = cert_label (0 + j),
      val = the (map_of (?certs ! j) ''name''),
      comments = certification_comments (0 + j)\<rparr>) [0..<length ?certs]"
  have out: "structure_ai_output ai_data =
      Inr (pre @ ?mid @ [\<lparr>num = n + length ?certs, key = ''Technical Proficiency'',
        val = VStr [], comments = technical_proficiency ai_data\<rparr>])"
    by (simp add: structure_ai_output_def st emit_certs_rows [OF names] emit_def)
  have at: "\<And>j. j < length ?certs \<Longrightarrow>
      (pre @ ?mid @ [\<lparr>num = n + length ?certs, key = ''Technical Proficiency'',
        val = VStr [], comments = technical_proficiency ai_data\<rparr>]) ! (length pre + j)
      = cert_row (length pre + 1) ?certs j"
    by (simp add: nth_append cert_row_def cert_label_def n)
  show "case structure_ai_output ai_data of
         Inl e \<Rightarrow> False
       | Inr rows \<Rightarrow>
           length rows =
             length (fst (flatten_sections ai_data)) + length (certifications ai_data) + 1
           \<and> (\<forall>j < length (certifications ai_data).
                 rows ! (length (fst (flatten_sections ai_data)) + j) =
                   cert_row (length (fst (flatten_sections ai_data)) + 1)
                     (certifications ai_data) j)"
    unfolding out st using at by simp
next
  assume "\<not> list_all has_name (certifications ai_data)"
  then show "structure_ai_output ai_data = Inl (KeyError ''name'')"
    by (simp add: structure_ai_output_def emit_certs_KeyError)
qed

text \<open>The theorem at the literal of the simulated extraction, whose four certifications
  follow 32 rows, and at the same extraction with a certification that has no name.\<close>

theorem certification_rows_by_position_witness:
  "list_all has_name
     (certifications (simulate_ai_extraction \<lparr>api_key = None, processed_data = [], ai_analysis = []\<rparr> alice))
   \<and> (case structure_ai_output
             (simulate_ai_extraction \<lparr>api_key = None, processed_data = [], ai_analysis = []\<rparr> alice) of
        Inl e \<Rightarrow> False
      | Inr rows \<Rightarrow>
          length rows = 37
          \<and> rows ! 32 = \<lparr>num = 33, key = ''Certifications 1'',
                val = VStr ''AWS Solutions Architect'', comments = certification_comments 0\<rparr>
          \<and> rows ! 35 = \<lparr>num = 36, key = ''Certifications 4'',
                val = VStr ''SAFe Agilist certification'', comments = certification_comments 3\<rparr>)
   \<and> \<not> list_all has_name
       (certifications
         ((simulate_ai_extraction \<lparr>api_key = None, processed_data = [], ai_analysis = []\<rparr> alice)
            \<lparr>certifications := [[(''year'', VStr ''2019'')]]\<rparr>))
   \<and> structure_ai_output
       ((simulate_ai_extraction \<lparr>api_key = None, processed_data = [], ai_analysis = []\<rparr> alice)
          \<lparr>certifications := [[(''year'', VStr ''2019'')]]\<rparr>) = Inl (KeyError ''name'')"
proof -
  let ?d = "simulate_ai_extraction \<lparr>api_key = None, processed_data = [], ai_analysis = []\<rparr> alice"
  let ?d' = "?d\<lparr>certifications := [[(''year'', VStr ''2019'')]]\<rparr>"
  have names: "list_all has_name (certifications ?d)"
    by code_simp
  have k: "length (fst (flatten_sections ?d)) = 32"
    by code_simp
  have c: "length (certifications ?d) = 4"
    by code_simp
  have r0: "cert_row 33 (certifications ?d) 0 = \<lparr>num = 33, key = ''Certifications 1'',
      val = VStr ''AWS Solutions Architect'', comments = certification_comments 0\<rparr>"
    by code_simp
  have r3: "cert_row 33 (certifications ?d) 3 = \<lparr>num = 36, key = ''Certifications 4'',
      val = VStr ''SAFe Agilist certification'', comments = certification_comments 3\<rparr>"
    by code_simp
  have nonames: "\<not> list_all has_name (certifications ?d')"
    by code_simp
  from certification_rows_by_position [of ?d] names
  have "case structure_ai_output ?d of
         Inl e \<Rightarrow> False
       | Inr rows \<Rightarrow>
           length rows = length (fst (flatten_sections ?d)) + length (certifications ?d) + 1
           \<and> (\<forall>j < length (certifications ?d).
                 rows ! (length (fst (flatten_sections ?d)) + j) =
                   cert_row (length (fst (flatten_sections ?d)) + 1) (certifications ?d) j)"
    by blast
  then obtain rows where o: "structure_ai_output ?d = Inr rows"
    and l: "length rows = 32 + 4 + 1"
    and a: "\<forall>j < 4. rows ! (32 + j) = cert_row (32 + 1) (certifications ?d) j"
    unfolding k c by (cases "structure_ai_output ?d") auto
  from a [rule_format, of 0] a [rule_format, of 3]
  have "rows ! (32 + 0) = cert_row (32 + 1) (certifications ?d) 0"
    and "rows ! (32 + 3) = cert_row (32 + 1) (certifications ?d) 3"
    by simp_all
  then have a0: "rows ! 32 = cert_row 33 (certifications ?d) 0"
    and a3: "rows ! 35 = cert_row 33 (certifications ?d) 3"
    by simp_all
  from certification_rows_by_position [of ?d'] nonames
  have e: "structure_ai_output ?d' = Inl (KeyError ''name'')"
    by blast
  show ?thesis
    using names nonames e l a0 a3 unfolding o r0 r3 by simp
qed

text \<open>
  C9 as stated fails on the label: the rows of the four certifications of the simulated
  extraction are labelled \<open>Certifications 1\<close> to \<open>Certifications 4\<close>, with an \<open>s\<close>, not
  \<open>Certification 1\<close> to \<open>Certification 4\<close>.
\<close>

theorem certification_label_counterexample:
  "(case process_document \<lparr>api_key = None, processed_data = [], ai_analysis = []\<rparr> alice of
      Inl e \<Rightarrow> []
    | Inr rows \<Rightarrow> map key (take 4 (drop 32 rows))) =
     [''Certifications 1'', ''Certifications 2'', ''Certifications 3'', ''Certifications 4'']
   \<and> ''Certifications 1'' \<noteq> ''Certification 1''"
  by code_simp

section \<open>Labels of keys that are not in a table\<close>

lemma length_title_from: "length (title_from b s) = length s"
  by (induction s arbitrary: b) simp_all

lemma to_upper_uncased: "\<not> is_lower c \<Longrightarrow> to_upper c = c"
  by (simp add: to_upper_def)

lemma to_lower_uncased: "\<not> is_upper c \<Longrightarrow> to_lower c = c"
  by (simp add: to_lower_def)

lemma lower_not_upper: "is_lower c \<Longrightarrow> \<not> is_upper c"
  by (simp add: is_lower_def is_upper_def Let_def)

lemma title_from_nth:
  "i < length s \<Longrightarrow>
   title_from b s ! i =
     (if (if i = 0 then \<not> b else \<not> is_cased (s ! (i - 1))) then to_upper (s ! i)
      else to_lower (s ! i))"
proof (induction s arbitrary: b i)
  case Nil
  then show ?case by simp
next
  case (Cons c cs)
  show ?case
  proof (cases i)
    case 0
    then show ?thesis
      by (auto simp: to_upper_uncased to_lower_uncased lower_not_upper)
  next
    case (Suc k)
    with Cons.prems have k: "k < length cs"
      by simp
    show ?thesis
      using Cons.IH [OF k] Suc
      by (cases k) (auto simp: is_cased_def lower_not_upper)
  qed
qed

lemma title_title_cased: "title_cased s (title s)"
  by (simp add: title_cased_def title_def length_title_from title_from_nth)

lemma dict_get_None: "map_of d k = None \<Longrightarrow> dict_get d k dflt = dflt"
  by (simp add: dict_get_def)

text \<open>
  C10, as the code has it. A key of the personal section that is not in its label table is
  shown as the key with its underscores replaced by spaces and the result title-cased. A
  key of the first, current or previous role or of the undergraduate or graduation record
  that is not in the table of its section is shown as it is, unchanged.
\<close>

theorem label_of_unknown_key:
  "(map_of key_mapping k = None \<longrightarrow>
      format_key_name k = title (replace_chr CHR ''_'' CHR '' '' k)
      \<and> title_cased (replace_chr CHR ''_'' CHR '' '' k) (format_key_name k))
   \<and> (map_of first_role_mapping k = None \<longrightarrow> format_first_role_key k = k)
   \<and> (map_of current_role_mapping k = None \<longrightarrow> format_current_role_key k = k)
   \<and> (map_of previous_role_mapping k = None \<longrightarrow> format_previous_role_key k = k)
   \<and> (map_of undergraduate_mapping k = None \<longrightarrow> format_undergraduate_key k = k)
   \<and> (map_of graduation_mapping k = None \<longrightarrow> format_graduation_key k = k)"
  by (simp add: format_key_name_def format_first_role_key_def format_current_role_key_def
      format_previous_role_key_def format_undergraduate_key_def format_graduation_key_def
      dict_get_None title_title_cased)

text \<open>The theorem at the key \<open>bonus_amount\<close>, which is in none of the six tables.\<close>

theorem label_of_unknown_key_witness:
  "map_of key_mapping ''bonus_amount'' = None
   \<and> map_of first_role_mapping ''bonus_amount'' = None
   \<and> map_of current_role_mapping ''bonus_amount'' = None
   \<and> map_of previous_role_mapping ''bonus_amount'' = None
   \<and> map_of undergraduate_mapping ''bonus_amount'' = None
   \<and> map_of graduation_mapping ''bonus_amount'' = None
   \<and> format_key_name ''bonus_amount'' = ''Bonus Amount''
   \<and> title_cased ''bonus amount'' ''Bonus Amount''
   \<and> format_first_role_key ''bonus_amount'' = ''bonus_amount''
   \<and> format_current_role_key ''bonus_amount'' = ''bonus_amount''
   \<and> format_previous_role_key ''bonus_amount'' = ''bonus_amount''
   \<and> format_undergraduate_key ''bonus_amount'' = ''bonus_amount''
   \<and> format_graduation_key ''bonus_amount'' = ''bonus_amount''"
proof -
  have n: "map_of key_mapping ''bonus_amount'' = None"
    "map_of first_role_mapping ''bonus_amount'' = None"
    "map_of current_role_mapping ''bonus_amount'' = None"
    "map_of previous_role_mapping ''bonus_amount'' = None"
    "map_of undergraduate_mapping ''bonus_amount'' = None"
    "map_of graduation_mapping ''bonus_amount'' = None"
    by code_simp+
  have t: "title (replace_chr CHR ''_'' CHR '' '' ''bonus_amount'') = ''Bonus Amount''"
    by code_simp
  have r: "replace_chr CHR ''_'' CHR '' '' ''bonus_amount'' = ''bonus amount''"
    by code_simp
  note th = label_of_unknown_key [of "''bonus_amount''"]
  from th n(1)
  have f0: "format_key_name ''bonus_amount'' = title (replace_chr CHR ''_'' CHR '' '' ''bonus_amount'')"
    and c0: "title_cased (replace_chr CHR ''_'' CHR '' '' ''bonus_amount'')
      (format_key_name ''bonus_amount'')"
    by blast+
  have f: "format_key_name ''bonus_amount'' = ''Bonus Amount''"
    using f0 t by (rule trans)
  have c: "title_cased ''bonus amount'' ''Bonus Amount''"
    using c0 unfolding f r .
  from th n have others:
    "format_first_role_key ''bonus_amount'' = ''bonus_amount''"
    "format_current_role_key ''bonus_amount'' = ''bonus_amount''"
    "format_previous_role_key ''bonus_amount'' = ''bonus_amount''"
    "format_undergraduate_key ''bonus_amount'' = ''bonus_amount''"
    "format_graduation_key ''bonus_amount'' = ''bonus_amount''"
    by blast+
  show ?thesis
    using n f c others by blast
qed

text \<open>
  C10 as stated fails for the keys of a role: \<open>bonus_amount\<close> is not in the table of the
  first role, and its label is \<open>bonus_amount\<close> itself, not the title-cased
  \<open>Bonus Amount\<close>.
\<close>

theorem label_of_unknown_key_counterexample:
  "map_of first_role_mapping ''bonus_amount'' = None
   \<and> format_first_role_key ''bonus_amount'' = ''bonus_amount''
   \<and> title (replace_chr CHR ''_'' CHR '' '' ''bonus_amount'') = ''Bonus Amount''
   \<and> ''bonus_amount'' \<noteq> ''Bonus Amount''"
  by code_simp

section \<open>Writing a row sequence as JSON and reading it back\<close>

subsection \<open>Integers\<close>

lemma digit_char_props:
  "\<forall>d \<in> set [0..<10]. is_digit (digit_char d) \<and> digit_val (digit_char d) = d
     \<and> (d \<noteq> 0 \<longrightarrow> digit_char d \<noteq> CHR ''0'')"
  by code_simp

lemma digit_char_lt:
  assumes "d < 10"
  shows "is_digit (digit_char d)" and "digit_val (digit_char d) = d"
    and "d \<noteq> 0 \<Longrightarrow> digit_char d \<noteq> CHR ''0''"
  using digit_char_props assms by auto

lemma str_nat_unfold:
  "str_nat n = (if n < 10 then [digit_char n] else str_nat (n div 10) @ [digit_char (n mod 10)])"
  by (rule str_nat.simps)

lemma str_nat_nonempty: "str_nat n \<noteq> []"
  by (subst str_nat_unfold) simp

lemma str_nat_digits: "list_all is_digit (str_nat n)"
proof (induction n rule: str_nat.induct)
  case (1 n)
  show ?case
  proof (cases "n < 10")
    case True
    then show ?thesis
      by (subst str_nat_unfold) (simp add: digit_char_lt)
  next
    case False
    with 1 show ?thesis
      by (subst str_nat_unfold) (simp add: digit_char_lt)
  qed
qed

lemma nat_of_digits_snoc: "nat_of_digits (s @ [c]) = 10 * nat_of_digits s + digit_val c"
  by (simp add: nat_of_digits_def)

lemma nat_of_digits_str_nat: "nat_of_digits (str_nat n) = n"
proof (induction n rule: str_nat.induct)
  case (1 n)
  show ?case
  proof (cases "n < 10")
    case True
    then show ?thesis
      by (subst str_nat_unfold) (simp add: nat_of_digits_def digit_char_lt)
  next
    case False
    with 1 have "nat_of_digits (str_nat (n div 10)) = n div 10"
      by simp
    with False show ?thesis
      by (subst str_nat_unfold) (simp add: nat_of_digits_snoc digit_char_lt)
  qed
qed

lemma str_nat_leading:
  "hd (str_nat n) = CHR ''0'' \<Longrightarrow> str_nat n = ''0''"
proof (induction n rule: str_nat.induct)
  case (1 n)
  show ?case
  proof (cases "n < 10")
    case True
    have "n = 0"
    proof (rule ccontr)
      assume "n \<noteq> 0"
      with True have "digit_char n \<noteq> CHR ''0''"
        by (simp add: digit_char_lt)
      moreover from True "1.prems" have "digit_char n = CHR ''0''"
        by (subst (asm) str_nat_unfold) simp
      ultimately show False by simp
    qed
    then show ?thesis
      by (subst str_nat_unfold) (simp add: digit_char_def)
  next
    case False
    from False "1.prems" have h: "hd (str_nat (n div 10)) = CHR ''0''"
      by (subst (asm) str_nat_unfold) (simp add: str_nat_nonempty)
    with 1 False have z: "str_nat (n div 10) = ''0''"
      by simp
    have "nat_of_digits (str_nat (n div 10)) = n div 10"
      by (rule nat_of_digits_str_nat)
    with z have "n div 10 = 0"
      by (simp add: nat_of_digits_def digit_val_def)
    with False show ?thesis
      by simp
  qed
qed

lemma jdigit_jc: "list_all jdigit (jc s) = list_all is_digit s"
  by (induction s) (simp_all add: jc_def jdigit_def)

lemma jchar_char_jc: "map jchar_char (jc s) = s"
  by (induction s) (simp_all add: jc_def jchar_char_def)

lemma takeWhile_all: "list_all P xs \<Longrightarrow> \<not> P y \<Longrightarrow> takeWhile P (xs @ y # ys) = xs"
  by (induction xs) simp_all

lemma scan_number_str_nat:
  assumes "\<not> is_digit c" and "c \<noteq> CHR ''.''" and "c \<noteq> CHR ''e''" and "c \<noteq> CHR ''E''"
  shows "scan_number (jc (str_nat n) @ JC c # r) = Some (JInt n, JC c # r)"
proof -
  obtain d ds where s: "str_nat n = d # ds"
    using str_nat_nonempty [of n] by (cases "str_nat n") auto
  have digits: "list_all jdigit (jc (str_nat n))"
    by (simp add: jdigit_jc str_nat_digits)
  have tw: "takeWhile jdigit (jc (str_nat n) @ JC c # r) = jc (str_nat n)"
    using digits assms(1) by (intro takeWhile_all) (simp_all add: jdigit_def)
  show ?thesis
  proof (cases "d = CHR ''0''")
    case True
    with s have "str_nat n = ''0''"
      using str_nat_leading [of n] by simp
    moreover from this have "n = 0"
      using nat_of_digits_str_nat [of n] by (simp add: nat_of_digits_def digit_val_def)
    ultimately show ?thesis
      using assms by (simp add: scan_number_def jc_def jchar_char_def nat_of_digits_def digit_val_def)
  next
    case False
    have "scan_number (jc (str_nat n) @ JC c # r) =
        Some (JInt (nat_of_digits (map jchar_char (jc (str_nat n)))), JC c # r)"
      unfolding scan_number_def tw using False s assms
      by (simp add: jc_def Let_def)
    then show ?thesis
      by (simp add: jchar_char_jc nat_of_digits_str_nat)
  qed
qed

subsection \<open>Strings\<close>

lemma jc_append: "jc (a @ b) = jc a @ jc b"
  by (simp add: jc_def)

lemma jc_Cons: "jc (c # s) = JC c # jc s"
  by (simp add: jc_def)

lemma jc_Nil: "jc [] = []"
  by (simp add: jc_def)

lemma hex_digit_props: "\<forall>d \<in> set [0..<16]. hex_val (hex_digit d) = Some d"
  by code_simp

lemma hex_val_hex_digit: "d < 16 \<Longrightarrow> hex_val (hex_digit d) = Some d"
  using hex_digit_props by auto

lemma hex_val_zero: "hex_val CHR ''0'' = Some 0"
  by code_simp

lemma code_point_control:
  assumes "n < 32"
  shows "code_point CHR ''0'' CHR ''0'' (hex_digit (n div 16)) (hex_digit (n mod 16)) = Some n"
proof -
  from assms have "n div 16 < 16" and "n mod 16 < 16"
    by simp_all
  then show ?thesis
    by (simp add: code_point_def hex_val_zero hex_val_hex_digit)
qed

lemma scan_string_escape:
  "scan_string (jc (json_escape c) @ rest) = cons_char c (scan_string rest)"
proof (cases "(of_char c :: nat) < 32")
  case True
  then have "c \<noteq> CHR 0x22" and "c \<noteq> CHR 0x5C"
    by auto
  with True show ?thesis
    by (auto simp: json_escape_def jc_Cons jc_Nil unescape_def code_point_control)
next
  case False
  then have "c \<noteq> CHR 0x0A" "c \<noteq> CHR 0x0D" "c \<noteq> CHR 0x09" "c \<noteq> CHR 0x08" "c \<noteq> CHR 0x0C"
    by auto
  with False show ?thesis
    by (auto simp: json_escape_def jc_Cons jc_Nil unescape_def)
qed

lemma scan_string_escaped:
  "scan_string (jc (concat (map json_escape s)) @ JC CHR 0x22 # rest) = Some (s, rest)"
  by (induction s) (simp_all add: jc_Nil jc_append scan_string_escape cons_char_def)

lemma parse_scalar_string:
  "parse_scalar (jc (encode_basestring s) @ rest) = Some (JStr s, rest)"
  by (simp add: parse_scalar_def encode_basestring_def jc_Cons jc_append jc_Nil
      scan_string_escaped)

lemma parse_scalar_encode:
  assumes "\<not> is_digit c" and "c \<noteq> CHR ''.''" and "c \<noteq> CHR ''e''" and "c \<noteq> CHR ''E''"
  shows "parse_scalar (encode_scalar v @ JC c # r) = Some (v, JC c # r)"
proof (cases v)
  case (JInt n)
  obtain d ds where s: "str_nat n = d # ds"
    using str_nat_nonempty [of n] by (cases "str_nat n") auto
  have "is_digit d"
    using str_nat_digits [of n] s by simp
  then have "d \<noteq> CHR 0x22"
    by (auto simp: is_digit_def)
  then have "parse_scalar (jc (str_nat n) @ JC c # r) = scan_number (jc (str_nat n) @ JC c # r)"
    by (simp add: parse_scalar_def s jc_Cons)
  with JInt show ?thesis
    by (simp add: scan_number_str_nat assms)
next
  case (JStr s)
  then show ?thesis
    by (simp add: parse_scalar_string)
next
  case (JFloat x)
  then show ?thesis
    by (simp add: parse_scalar_def scan_number_def)
qed

subsection \<open>Dictionaries and the list\<close>

lemma json_ws_newline_indent: "list_all json_ws (newline_indent k)"
  by (simp add: newline_indent_def jc_def json_ws_def list_all_iff)

lemma dropWhile_all: "list_all P xs \<Longrightarrow> \<not> P y \<Longrightarrow> dropWhile P (xs @ y # ys) = y # ys"
  by (induction xs) simp_all

lemma skip_ws_indent: "\<not> json_ws x \<Longrightarrow> skip_ws (newline_indent k @ x # xs) = x # xs"
  unfolding skip_ws_def by (rule dropWhile_all [OF json_ws_newline_indent])

lemma skip_ws_Nil: "skip_ws [] = []"
  by (simp add: skip_ws_def)

lemma skip_ws_noop: "\<not> json_ws x \<Longrightarrow> skip_ws (x # xs) = x # xs"
  by (simp add: skip_ws_def)

lemma newline_indent_Cons: "newline_indent k = JC CHR 0x0A # jc (replicate k CHR '' '')"
  by (simp add: newline_indent_def jc_def)

lemma encode_scalar_head: "\<exists>a as. encode_scalar v = a # as \<and> \<not> json_ws a"
proof (cases v)
  case (JInt n)
  obtain d ds where s: "str_nat n = d # ds"
    using str_nat_nonempty [of n] by (cases "str_nat n") auto
  have "is_digit d"
    using str_nat_digits [of n] s by simp
  then have "\<not> json_ws (JC d)"
    by (auto simp: is_digit_def json_ws_def)
  with JInt s show ?thesis
    by (simp add: jc_Cons)
next
  case (JStr s)
  then show ?thesis
    by (simp add: encode_basestring_def jc_Cons json_ws_def)
next
  case (JFloat x)
  then show ?thesis
    by (simp add: json_ws_def)
qed

lemma skip_ws_space_scalar: "skip_ws (JC CHR '' '' # encode_scalar v @ xs) = encode_scalar v @ xs"
proof -
  obtain a as where "encode_scalar v = a # as" and "\<not> json_ws a"
    using encode_scalar_head by blast
  then show ?thesis
    by (simp add: skip_ws_def json_ws_def)
qed

lemma encode_item_eq:
  "encode_item (k, v) =
     JC CHR 0x22 # (jc (concat (map json_escape k)) @ JC CHR 0x22 # JC CHR '':'' # JC CHR '' ''
       # encode_scalar v)"
  by (simp add: encode_item_def encode_basestring_def jc_Cons jc_append jc_Nil)

text \<open>One item of a dictionary, read from behind the opening quote of its key up to the
  character \<open>c\<close> that follows its value.\<close>

lemma item_prefix:
  assumes "\<not> is_digit c" and "c \<noteq> CHR ''.''" and "c \<noteq> CHR ''e''" and "c \<noteq> CHR ''E''"
  shows "scan_string (tl (encode_item (k, v)) @ JC c # xs) =
           Some (k, JC CHR '':'' # JC CHR '' '' # encode_scalar v @ JC c # xs)"
    and "parse_scalar (skip_ws (JC CHR '' '' # encode_scalar v @ JC c # xs)) = Some (v, JC c # xs)"
  using assms by (simp_all add: encode_item_eq scan_string_escaped skip_ws_space_scalar
      parse_scalar_encode)

lemma parse_members_last:
  "parse_members (Suc fuel) (tl (encode_item (k, v)) @ newline_indent 2 @ JC CHR ''}'' # rest)
     = Some ([(k, v)], rest)"
proof -
  have nd: "\<not> is_digit CHR 0x0A" "CHR 0x0A \<noteq> CHR ''.''" "CHR 0x0A \<noteq> CHR ''e''"
    "CHR 0x0A \<noteq> CHR ''E''"
    by (simp_all add: is_digit_def)
  have colon: "\<not> json_ws (JC CHR '':'')" and brace: "\<not> json_ws (JC CHR ''}'')"
    by (simp_all add: json_ws_def)
  let ?tail = "jc (replicate 2 CHR '' '') @ JC CHR ''}'' # rest"
  have n2: "newline_indent 2 @ JC CHR ''}'' # rest = JC CHR 0x0A # ?tail"
    by (simp add: newline_indent_Cons)
  have s3: "skip_ws (JC CHR 0x0A # ?tail) = JC CHR ''}'' # rest"
    using skip_ws_indent [OF brace, of 2 rest] by (simp add: newline_indent_Cons)
  show ?thesis
    unfolding n2 parse_members.simps item_prefix(1) [OF nd]
    by (simp add: skip_ws_noop [OF colon] item_prefix(2) [OF nd] s3)
qed

lemma join_Cons2: "join sep (x # y # ys) = x @ sep @ join sep (y # ys)"
  by simp

lemma encode_item_Cons: "\<exists>xs. encode_item kv = JC CHR 0x22 # xs"
  by (cases kv) (simp add: encode_item_eq)

lemma join_items_head:
  "\<exists>xs. join sep (map encode_item (kv # kvs)) = JC CHR 0x22 # xs"
proof (cases kvs)
  case Nil
  then show ?thesis
    using encode_item_Cons [of kv] by auto
next
  case (Cons a list)
  then show ?thesis
    using encode_item_Cons [of kv] by auto
qed

lemma parse_members_items:
  "length kvs < fuel \<Longrightarrow>
   parse_members fuel
     (tl (join (jc '','' @ newline_indent 4) (map encode_item (kv # kvs)))
        @ newline_indent 2 @ JC CHR ''}'' # rest)
     = Some (kv # kvs, rest)"
proof (induction kvs arbitrary: kv fuel)
  case Nil
  then obtain f where f: "fuel = Suc f"
    by (cases fuel) auto
  obtain k v where kv: "kv = (k, v)"
    by (cases kv)
  show ?case
    unfolding f kv using parse_members_last [of f k v rest] by simp
next
  case (Cons kv' kvs)
  then obtain f where f: "fuel = Suc f" and lf: "length kvs < f"
    by (cases fuel) auto
  obtain k v where kv: "kv = (k, v)"
    by (cases kv)
  let ?sep = "jc '','' @ newline_indent 4"
  let ?next = "join ?sep (encode_item kv' # map encode_item kvs)"
  let ?end = "newline_indent 2 @ JC CHR ''}'' # rest"
  obtain ys where ys: "?next = JC CHR 0x22 # ys"
    using join_items_head [of ?sep kv' kvs] by auto
  have nd: "\<not> is_digit CHR '',''" "CHR '','' \<noteq> CHR ''.''" "CHR '','' \<noteq> CHR ''e''"
    "CHR '','' \<noteq> CHR ''E''"
    by (simp_all add: is_digit_def)
  have colon: "\<not> json_ws (JC CHR '':'')" and comma: "\<not> json_ws (JC CHR '','')"
    and quote: "\<not> json_ws (JC CHR 0x22)"
    by (simp_all add: json_ws_def)
  have shape: "tl (join ?sep (map encode_item (kv # kv' # kvs))) @ ?end
      = tl (encode_item (k, v)) @ JC CHR '','' # (newline_indent 4 @ ?next @ ?end)"
    using encode_item_Cons [of "(k, v)"] by (auto simp: kv jc_Cons jc_Nil)
  have sk: "skip_ws (newline_indent 4 @ ?next @ ?end) = JC CHR 0x22 # (ys @ ?end)"
    unfolding ys using skip_ws_indent [OF quote, of 4 "ys @ ?end"] by simp
  have ih: "parse_members f (ys @ ?end) = Some (kv' # kvs, rest)"
    using Cons.IH [OF lf, of kv'] ys by simp
  show ?case
    unfolding f shape parse_members.simps item_prefix(1) [OF nd]
    by (simp add: skip_ws_noop [OF colon] skip_ws_noop [OF comma] item_prefix(2) [OF nd] sk ih kv)
qed

lemma update_fresh: "k \<notin> fst ` set ps \<Longrightarrow> AList.update k v ps = ps @ [(k, v)]"
  by (induction ps) auto

lemma py_dict_distinct: "distinct (map fst pairs) \<Longrightarrow> py_dict pairs = pairs"
proof (induction pairs rule: rev_induct)
  case Nil
  then show ?case by (simp add: py_dict_def)
next
  case (snoc kv pairs)
  then have "py_dict pairs = pairs" and "fst kv \<notin> fst ` set pairs"
    by auto
  then show ?case
    by (simp add: py_dict_def update_fresh)
qed

lemma length_join: "0 < length sep \<Longrightarrow> length xs \<le> Suc (length (join sep xs))"
  by (induction sep xs rule: join.induct) (simp_all del: length_greater_0_conv)

text \<open>A dictionary, read from behind its opening brace.\<close>

lemma encode_dict_head: "\<exists>xs. encode_dict d = JC CHR ''{'' # xs"
  by (simp add: encode_dict_def jc_Cons jc_Nil)

lemma parse_object_encode:
  assumes "distinct (map fst d)"
  shows "parse_object (tl (encode_dict d) @ rest) = Some (d, rest)"
proof (cases d)
  case Nil
  then show ?thesis
    by (simp add: parse_object_def encode_dict_def jc_Cons jc_Nil skip_ws_def json_ws_def)
next
  case (Cons kv kvs)
  let ?items = "join (jc '','' @ newline_indent 4) (map encode_item (kv # kvs))"
  let ?end = "newline_indent 2 @ JC CHR ''}'' # rest"
  obtain ys where ys: "?items = JC CHR 0x22 # ys"
    using join_items_head by blast
  have quote: "\<not> json_ws (JC CHR 0x22)"
    by (simp add: json_ws_def)
  have shape: "tl (encode_dict d) @ rest = newline_indent 4 @ ?items @ ?end"
    by (simp add: Cons encode_dict_def jc_Cons jc_Nil)
  have sk: "skip_ws (newline_indent 4 @ ?items @ ?end) = JC CHR 0x22 # (ys @ ?end)"
    unfolding ys using skip_ws_indent [OF quote, of 4 "ys @ ?end"] by simp
  have "length (map encode_item (kv # kvs)) \<le> Suc (length ?items)"
    by (rule length_join) (simp add: jc_def)
  then have fuel: "length kvs < Suc (length (ys @ ?end))"
    unfolding ys by simp
  have "parse_members (Suc (length (ys @ ?end))) (ys @ ?end) = Some (kv # kvs, rest)"
    using parse_members_items [OF fuel, of kv rest] ys by simp
  then show ?thesis
    unfolding shape parse_object_def sk
    using assms by (simp add: Cons py_dict_distinct del: parse_members.simps)
qed

lemma join_dicts_head:
  "\<exists>xs. join sep (map encode_dict (d # ds)) = JC CHR ''{'' # xs"
proof (cases ds)
  case Nil
  then show ?thesis
    using encode_dict_head [of d] by auto
next
  case (Cons a list)
  then show ?thesis
    using encode_dict_head [of d] by auto
qed

lemma parse_elements_dicts:
  "length ds < fuel \<Longrightarrow> list_all (\<lambda>d. distinct (map fst d)) (d # ds) \<Longrightarrow>
   parse_elements fuel
     (join (jc '','' @ newline_indent 2) (map encode_dict (d # ds))
        @ newline_indent 0 @ JC CHR '']'' # rest)
     = Some (d # ds, rest)"
proof (induction ds arbitrary: d fuel)
  case Nil
  then obtain f where f: "fuel = Suc f"
    by (cases fuel) auto
  from Nil.prems have dd: "distinct (map fst d)"
    by simp
  obtain xs where xs: "encode_dict d = JC CHR ''{'' # xs"
    using encode_dict_head by blast
  have bracket: "\<not> json_ws (JC CHR '']'')"
    by (simp add: json_ws_def)
  have po: "parse_object (xs @ newline_indent 0 @ JC CHR '']'' # rest)
      = Some (d, newline_indent 0 @ JC CHR '']'' # rest)"
    using parse_object_encode [OF dd, of "newline_indent 0 @ JC CHR '']'' # rest"] xs by simp
  show ?case
    unfolding f by (simp add: xs po skip_ws_indent [OF bracket])
next
  case (Cons d' ds)
  then obtain f where f: "fuel = Suc f" and lf: "length ds < f"
    by (cases fuel) auto
  from Cons.prems have dd: "distinct (map fst d)"
    and rest_ok: "list_all (\<lambda>d. distinct (map fst d)) (d' # ds)"
    by simp_all
  let ?sep = "jc '','' @ newline_indent 2"
  let ?next = "join ?sep (encode_dict d' # map encode_dict ds)"
  let ?end = "newline_indent 0 @ JC CHR '']'' # rest"
  obtain xs where xs: "encode_dict d = JC CHR ''{'' # xs"
    using encode_dict_head by blast
  obtain ys where ys: "?next = JC CHR ''{'' # ys"
    using join_dicts_head [of ?sep d' ds] by auto
  have comma: "\<not> json_ws (JC CHR '','')" and brace: "\<not> json_ws (JC CHR ''{'')"
    by (simp_all add: json_ws_def)
  have shape: "join ?sep (map encode_dict (d # d' # ds)) @ ?end
      = JC CHR ''{'' # (xs @ JC CHR '','' # (newline_indent 2 @ ?next @ ?end))"
    by (simp add: xs jc_Cons jc_Nil)
  have po: "parse_object (xs @ JC CHR '','' # (newline_indent 2 @ ?next @ ?end))
      = Some (d, JC CHR '','' # (newline_indent 2 @ ?next @ ?end))"
    using parse_object_encode [OF dd, of "JC CHR '','' # (newline_indent 2 @ ?next @ ?end)"] xs
    by simp
  have sk: "skip_ws (newline_indent 2 @ ?next @ ?end) = ?next @ ?end"
    unfolding ys using skip_ws_indent [OF brace, of 2 "ys @ ?end"] by simp
  have ih: "parse_elements f (?next @ ?end) = Some (d' # ds, rest)"
    using Cons.IH [OF lf rest_ok] by simp
  show ?case
    unfolding f shape
    by (simp add: po skip_ws_noop [OF comma] sk ih)
qed

lemma json_loads_dumps:
  assumes "list_all (\<lambda>d. distinct (map fst d)) ds"
  shows "json_loads (json_dumps ds) = Some ds"
proof (cases ds)
  case Nil
  then show ?thesis
    by (simp add: json_loads_def json_dumps_def jc_Cons jc_Nil skip_ws_def json_ws_def)
next
  case (Cons d ds')
  let ?items = "join (jc '','' @ newline_indent 2) (map encode_dict (d # ds'))"
  let ?end = "newline_indent 0 @ [JC CHR '']'']"
  define body where "body = newline_indent 2 @ ?items @ ?end"
  obtain ys where ys: "?items = JC CHR ''{'' # ys"
    using join_dicts_head by blast
  have brace: "\<not> json_ws (JC CHR ''{'')" and bracket: "\<not> json_ws (JC CHR ''['')"
    by (simp_all add: json_ws_def)
  have shape: "json_dumps ds = JC CHR ''['' # body"
    by (simp add: Cons json_dumps_def jc_Cons jc_Nil body_def)
  have sk: "skip_ws body = JC CHR ''{'' # (ys @ ?end)"
    unfolding body_def ys using skip_ws_indent [OF brace, of 2 "ys @ ?end"] by simp
  have "length (map encode_dict (d # ds')) \<le> Suc (length ?items)"
    by (rule length_join) (simp add: jc_def)
  then have fuel: "length ds' < Suc (length body)"
    by (simp add: body_def)
  have pe: "parse_elements (Suc (length body)) (JC CHR ''{'' # (ys @ ?end)) = Some (d # ds', [])"
    using parse_elements_dicts [OF fuel, of d "[]"] assms Cons ys by simp
  show ?thesis
    unfolding shape json_loads_def skip_ws_noop [OF bracket]
    by (simp add: sk pe Cons skip_ws_Nil del: parse_elements.simps)
qed

subsection \<open>The rows\<close>

lemma distinct_row_keys: "distinct (map fst (row_to_dict r))"
  by (simp add: row_to_dict_def)

lemma inj_row_to_dict: "inj row_to_dict"
proof (rule injI)
  fix r r' :: row
  assume e: "row_to_dict r = row_to_dict r'"
  then have "num r = num r'" and "key r = key r'" and "comments r = comments r'"
    by (simp_all add: row_to_dict_def)
  moreover from e have "val r = val r'"
    by (cases "val r"; cases "val r'") (simp_all add: row_to_dict_def)
  ultimately show "r = r'"
    by simp
qed

text \<open>
  C8. For every row sequence, the JSON text \<open>json.dump\<close> writes for it is read back by
  \<open>json.load\<close> as the same list of dictionaries, in the same order, each with the same
  \<open>#\<close>, \<open>Key\<close>, \<open>Value\<close> and \<open>Comments\<close> entries; the dictionaries of two different rows
  differ. So the file \<open>save_to_json\<close> writes for a processor that holds rows, and the file
  the structured processor writes for any rows, read back, give the rows that were saved.
\<close>

theorem json_round_trip:
  "json_loads (json_dumps (map row_to_dict rows)) = Some (map row_to_dict rows)
   \<and> inj row_to_dict
   \<and> (extracted_data p \<noteq> [] \<and> fs filename \<noteq> Some Unwritable \<longrightarrow>
        read_json (snd (snd (save_to_json filename (p, fs)))) filename
          = Some (map row_to_dict (extracted_data p)))
   \<and> (fs filename \<noteq> Some Unwritable \<longrightarrow>
        read_json (snd (ai_save_to_json filename rows fs)) filename
          = Some (map row_to_dict rows))"
proof -
  have rt: "\<And>rs. json_loads (json_dumps (map row_to_dict rs)) = Some (map row_to_dict rs)"
    by (rule json_loads_dumps) (simp add: list_all_iff distinct_row_keys)
  show ?thesis
    by (simp add: rt inj_row_to_dict save_to_json_ok ai_save_to_json_def read_json_def)
qed

text \<open>The theorem at the rows of the text about Alice Smith, saved by the pattern-matching
  processor, and at a row with a float value, saved by the structured processor.\<close>

theorem json_round_trip_witness:
  "extracted_data (snd (process_all (DocumentProcessor (Some alice)))) = all_rows alice
   \<and> length (all_rows alice) = 7
   \<and> read_json
       (snd (snd (save_to_json ''extracted_data.json''
                    (snd (process_all (DocumentProcessor (Some alice))), Map.empty))))
       ''extracted_data.json''
       = Some (map row_to_dict (all_rows alice))
   \<and> read_json
       (snd (ai_save_to_json ''ai_extracted_data.json''
               [\<lparr>num = 24, key = ''12th overall board score'',
                 val = VFloat (FloatDiv (FloatOf ''92.5'') 100),
                 comments = ''Outstanding achievement''\<rparr>] Map.empty))
       ''ai_extracted_data.json''
       = Some [[(''#'', JInt 24), (''Key'', JStr ''12th overall board score''),
                (''Value'', JFloat (FloatDiv (FloatOf ''92.5'') 100)),
                (''Comments'', JStr ''Outstanding achievement'')]]"
proof -
  let ?p = "snd (process_all (DocumentProcessor (Some alice)))"
  let ?r = "\<lparr>num = 24, key = ''12th overall board score'',
      val = VFloat (FloatDiv (FloatOf ''92.5'') 100), comments = ''Outstanding achievement''\<rparr>"
  have ne: "alice \<noteq> []"
    by (simp add: alice_def)
  have e: "extracted_data ?p = all_rows alice"
    by (simp add: process_all_fresh [OF ne])
  have l: "length (all_rows alice) = 7"
    by code_simp
  then have n: "extracted_data ?p \<noteq> []"
    unfolding e by auto
  have w: "Map.empty ''extracted_data.json'' \<noteq> Some Unwritable"
    "Map.empty ''ai_extracted_data.json'' \<noteq> Some Unwritable"
    by simp_all
  have d: "map row_to_dict [?r] =
      [[(''#'', JInt 24), (''Key'', JStr ''12th overall board score''),
        (''Value'', JFloat (FloatDiv (FloatOf ''92.5'') 100)),
        (''Comments'', JStr ''Outstanding achievement'')]]"
    by (simp add: row_to_dict_def)
  have a: "read_json (snd (snd (save_to_json ''extracted_data.json'' (?p, Map.empty))))
      ''extracted_data.json'' = Some (map row_to_dict (extracted_data ?p))"
    using json_round_trip [of "[]" ?p Map.empty "''extracted_data.json''"] n w(1) by blast
  have b: "read_json (snd (ai_save_to_json ''ai_extracted_data.json'' [?r] Map.empty))
      ''ai_extracted_data.json'' = Some (map row_to_dict [?r])"
    using json_round_trip [of "[?r]" ?p Map.empty "''ai_extracted_data.json''"] w(2) by blast
  show ?thesis
    using e l a b unfolding d by simp
qed

end
